theory Spec2Isabelle
  imports Main
begin

section \<open>The x402 payment middleware core (middleware.ts)\<close>

text \<open>
  A shallow embedding of \<^verbatim>\<open>typescript/packages/x402/src/middleware/middleware.ts\<close>
  and of the request handlers of its Hono, Express and Next.js adapters.
  A \<^verbatim>\<open>throw\<close> (or a rejected promise) is the left injection of a sum, an optional
  property is an \<open>option\<close>, and every call of the remote facilitator or of the
  downstream handler is written to a list of events, in program order.
  The collaborators that live in other packages (\<^verbatim>\<open>useFacilitator\<close>,
  \<^verbatim>\<open>processPriceToAtomicAmount\<close>, \<^verbatim>\<open>findMatchingPaymentRequirements\<close>,
  \<^verbatim>\<open>toJsonSafe\<close>, viem's \<^verbatim>\<open>getAddress\<close>, \<^verbatim>\<open>settleResponseHeader\<close>,
  \<^verbatim>\<open>getPaywallHtml\<close>) are parameters of the functions that call them.
\<close>

subsection \<open>Values\<close>

text \<open>JavaScript values as far as the middleware builds or forwards them.\<close>

datatype json =
    JUndefined
  | JNull
  | JBool bool
  | JNumber int
  | JString string
  | JArray "json list"
  | JObject "(string \<times> json) list"

text \<open>
  The first parameter of the \<^verbatim>\<open>X402Error\<close> constructor is \<^verbatim>\<open>Error | string\<close>;
  the values caught from the extractor and the settler are cast to it.
  An \<^verbatim>\<open>Error\<close> object is its \<^verbatim>\<open>name\<close> and its \<^verbatim>\<open>message\<close>.
\<close>

datatype error_or_string =
    AnError string string
  | AString string

text \<open>\<^verbatim>\<open>String(error)\<close>: a string is itself, an \<^verbatim>\<open>Error\<close> prints as
  \<^verbatim>\<open>Error.prototype.toString\<close> does.\<close>

fun String_of :: "error_or_string \<Rightarrow> string" where
  "String_of (AString s) = s"
| "String_of (AnError nm msg) =
     (if nm = [] then msg else if msg = [] then nm else nm @ '': '' @ msg)"

text \<open>A template literal prints an absent value as \<^verbatim>\<open>undefined\<close>.\<close>

fun template_string :: "string option \<Rightarrow> string" where
  "template_string None = ''undefined''"
| "template_string (Some s) = s"

subsection \<open>Data model\<close>

text \<open>\<^verbatim>\<open>Omit<PaymentRequirements, "resource">\<close>, the type of \<^verbatim>\<open>#paymentReq\<close>.\<close>

record payment_template =
  scheme :: string
  network :: string
  maxAmountRequired :: string
  description :: string
  mimeType :: string
  payTo :: string
  maxTimeoutSeconds :: int
  asset :: string
  outputSchema :: "json option"
  extra :: json

record PaymentRequirements = payment_template +
  resource :: string

record PaymentPayload =
  pp_x402Version :: int
  pp_scheme :: string
  pp_network :: string
  pp_payload :: json

text \<open>The answers of the facilitator: \<^verbatim>\<open>VerifyResponse\<close> and \<^verbatim>\<open>SettleResponse\<close>.\<close>

record VerifyResponse =
  isValid :: bool
  invalidReason :: "string option"
  vr_payer :: "string option"

record SettleResponse =
  success :: bool
  errorReason :: "string option"
  sr_payer :: "string option"
  sr_transaction :: string
  sr_network :: string

text \<open>\<^verbatim>\<open>ReturnType<typeof useFacilitator>\<close>: both calls are remote and may reject.\<close>

record Facilitator =
  verify :: "PaymentPayload \<Rightarrow> PaymentRequirements \<Rightarrow> error_or_string + VerifyResponse"
  settle :: "PaymentPayload \<Rightarrow> PaymentRequirements \<Rightarrow> error_or_string + SettleResponse"

text \<open>What \<^verbatim>\<open>processPriceToAtomicAmount\<close> returns when it does not report an error.\<close>

record Asset =
  address :: string
  decimals :: nat
  eip712 :: json

record AtomicAmount =
  aa_maxAmountRequired :: string
  aa_asset :: Asset

text \<open>\<^verbatim>\<open>RouteConfig\<close> and its optional \<^verbatim>\<open>config\<close> member.\<close>

record RouteConfigConfig =
  cfg_resource :: "string option"
  cfg_description :: "string option"
  cfg_mimeType :: "string option"
  cfg_maxTimeoutSeconds :: "int option"
  cfg_outputSchema :: "json option"
  cfg_customPaywallHtml :: "string option"

record 'price RouteConfig =
  price :: 'price
  rc_network :: string
  config :: "RouteConfigConfig option"

text \<open>\<^verbatim>\<open>PaymentMiddlewareConfig<TRequest>\<close> is \<^verbatim>\<open>RouteConfig\<close> and the members below;
  \<^verbatim>\<open>paywall\<close> is not read by the class and is left out.\<close>

record ('price, 'req, 'fc) PaymentMiddlewareConfig = "'price RouteConfig" +
  c_payTo :: string
  c_facilitator :: "'fc option"
  resourceFromRequest :: "('req \<Rightarrow> string) option"
  c_canRenderPaywall :: "('req \<Rightarrow> bool) option"
  c_paymentFromRequest :: "'req \<Rightarrow> error_or_string + PaymentPayload option"
  processPriceToAtomicAmountFn :: "('price \<Rightarrow> string \<Rightarrow> string + AtomicAmount) option"
  verifyFn :: "(PaymentPayload \<Rightarrow> PaymentRequirements \<Rightarrow> error_or_string + VerifyResponse) option"
  settleFn :: "(PaymentPayload \<Rightarrow> PaymentRequirements \<Rightarrow> error_or_string + SettleResponse) option"

subsection \<open>The two error classes\<close>

record PaymentMiddlewareConfigError =
  ce_name :: string
  ce_message :: string

definition new_PaymentMiddlewareConfigError :: "string \<Rightarrow> PaymentMiddlewareConfigError" where
  "new_PaymentMiddlewareConfigError message =
     \<lparr>ce_name = ''PaymentMiddlewareConfigError'', ce_message = message\<rparr>"

definition X402_VERSION :: int where
  "X402_VERSION = 1"

record X402Error =
  xe_name :: string
  xe_message :: string
  x402Version :: int
  xe_error :: error_or_string
  accepts :: "PaymentRequirements list"
  payer :: "string option"

text \<open>The constructor: \<^verbatim>\<open>super(String(error))\<close> sets the message.\<close>

definition new_X402Error ::
  "error_or_string \<Rightarrow> PaymentRequirements list \<Rightarrow> string option \<Rightarrow> X402Error" where
  "new_X402Error err accepts' payer' =
     \<lparr>xe_name = ''X402Error'', xe_message = String_of err, x402Version = X402_VERSION,
      xe_error = err, accepts = accepts', payer = payer'\<rparr>"

text \<open>The \<^verbatim>\<open>error\<close> member of the serialized form: the message of an \<^verbatim>\<open>Error\<close>
  object, \<^verbatim>\<open>String(this.error)\<close> otherwise.\<close>

fun error_text :: "error_or_string \<Rightarrow> string" where
  "error_text (AnError nm msg) = msg"
| "error_text (AString s) = String_of (AString s)"

fun json_of_optional :: "string option \<Rightarrow> json" where
  "json_of_optional None = JUndefined"
| "json_of_optional (Some s) = JString s"

text \<open>\<^verbatim>\<open>toJSON()\<close> returns an object literal of four properties, in this order.\<close>

definition toJSON ::
  "(PaymentRequirements list \<Rightarrow> json) \<Rightarrow> X402Error \<Rightarrow> (string \<times> json) list" where
  "toJSON toJsonSafe e =
     [(''x402Version'', JNumber (x402Version e)),
      (''error'', JString (error_text (xe_error e))),
      (''accepts'', toJsonSafe (accepts e)),
      (''payer'', json_of_optional (payer e))]"

text \<open>What a \<^verbatim>\<open>catch\<close> of the adapters can see: an \<^verbatim>\<open>X402Error\<close>, or anything else.\<close>

datatype failure =
    X402 X402Error
  | Other error_or_string

subsection \<open>Events\<close>

text \<open>The calls whose order and number the specification speaks about: the two
  facilitator calls, the call of the downstream handler (\<^verbatim>\<open>next()\<close> or the wrapped
  route handler), and the methods the Express handler calls on its response object
  (\<^verbatim>\<open>res.status\<close>, \<^verbatim>\<open>res.send\<close>, \<^verbatim>\<open>res.json\<close>, \<^verbatim>\<open>res.setHeader\<close>, the
  two assignments to \<^verbatim>\<open>res.end\<close>, which install the capturing function and put the
  original one back, and the call of the original \<^verbatim>\<open>res.end\<close> with the captured
  arguments).\<close>

datatype EndArgs = EndArgs "json list"

datatype event =
    VerifyCalled PaymentPayload PaymentRequirements
  | SettleCalled PaymentPayload PaymentRequirements
  | DownstreamCalled
  | ResStatus nat
  | ResSend string
  | ResJson "(string \<times> json) list"
  | ResSetHeader string string
  | ResEndPatched
  | ResEndRestored
  | ResEnd EndArgs

fun is_settle :: "event \<Rightarrow> bool" where
  "is_settle (SettleCalled p r) = True"
| "is_settle e = False"

fun is_verify :: "event \<Rightarrow> bool" where
  "is_verify (VerifyCalled p r) = True"
| "is_verify e = False"

subsection \<open>AcquiredPayment\<close>

record Settlement =
  st_success :: bool
  st_transaction :: string
  st_network :: string
  st_payer :: "string option"

record AcquiredPayment =
  payload :: PaymentPayload
  selected :: PaymentRequirements
  requirements :: "PaymentRequirements list"
  ap_settle :: "PaymentPayload \<Rightarrow> PaymentRequirements \<Rightarrow> error_or_string + SettleResponse"

definition new_AcquiredPayment ::
  "PaymentPayload \<Rightarrow> PaymentRequirements \<Rightarrow> PaymentRequirements list
   \<Rightarrow> (PaymentPayload \<Rightarrow> PaymentRequirements \<Rightarrow> error_or_string + SettleResponse)
   \<Rightarrow> AcquiredPayment" where
  "new_AcquiredPayment payload' selected' requirements' settle' =
     \<lparr>payload = payload', selected = selected', requirements = requirements',
      ap_settle = settle'\<rparr>"

text \<open>
  \<^verbatim>\<open>settle()\<close>. The settler is called once, with the payload and the selected
  requirement. The non-null assertion on \<^verbatim>\<open>settlement.payer\<close> does nothing at run
  time, so the payer of a \<^verbatim>\<open>Settlement\<close> may still be absent.
\<close>

definition settle_payment :: "AcquiredPayment \<Rightarrow> event list \<times> (failure + Settlement)" where
  "settle_payment this =
     ([SettleCalled (payload this) (selected this)],
      (case ap_settle this (payload this) (selected this) of
         Inl e \<Rightarrow> Inl (X402 (new_X402Error e (requirements this) None))
       | Inr settlement \<Rightarrow>
           if success settlement
           then Inr \<lparr>st_success = True,
                     st_transaction = sr_transaction settlement,
                     st_network = sr_network settlement,
                     st_payer = sr_payer settlement\<rparr>
           else Inl (X402 (new_X402Error
                  (AString (''Settlement failed: '' @ template_string (errorReason settlement)))
                  (requirements this)
                  (sr_payer settlement)))))"

subsection \<open>PaymentMiddleware\<close>

text \<open>The fields of an instance; \<^verbatim>\<open>#resource\<close> is a static resource or a function.\<close>

record ('price, 'req) PaymentMiddleware =
  mw_config :: "'price RouteConfig"
  mw_facilitator :: Facilitator
  mw_paymentReq :: payment_template
  mw_resource :: "string + ('req \<Rightarrow> string)"
  mw_paymentFromRequest :: "'req \<Rightarrow> error_or_string + PaymentPayload option"
  mw_canRenderPaywall :: "('req \<Rightarrow> bool) option"

text \<open>What the constructor can throw: its own error, or what \<^verbatim>\<open>getAddress\<close> threw.\<close>

datatype construction_failure =
    ConfigError PaymentMiddlewareConfigError
  | AddressError error_or_string

text \<open>\<^verbatim>\<open>config.config?.resource || config.resourceFromRequest\<close>: an empty string is
  falsy, so the right operand is taken for it too.\<close>

definition resource_of_config ::
  "('price, 'req, 'fc) PaymentMiddlewareConfig \<Rightarrow> (string + ('req \<Rightarrow> string)) option" where
  "resource_of_config cfg =
     (case (case config cfg of None \<Rightarrow> None | Some cc \<Rightarrow> cfg_resource cc) of
        None \<Rightarrow> map_option Inr (resourceFromRequest cfg)
      | Some s \<Rightarrow> if s = [] then map_option Inr (resourceFromRequest cfg) else Some (Inl s))"

text \<open>\<^verbatim>\<open>config.config?.field\<close>.\<close>

definition config_field ::
  "(RouteConfigConfig \<Rightarrow> 'a option) \<Rightarrow> ('price, 'req, 'fc) PaymentMiddlewareConfig \<Rightarrow> 'a option" where
  "config_field f cfg = (case config cfg of None \<Rightarrow> None | Some cc \<Rightarrow> f cc)"

text \<open>\<^verbatim>\<open>a ?? b\<close>.\<close>

fun nullish :: "'a option \<Rightarrow> 'a \<Rightarrow> 'a" where
  "nullish None d = d"
| "nullish (Some v) d = v"

text \<open>The facilitator of an instance: \<^verbatim>\<open>useFacilitator(config.facilitator)\<close> with
  the two overrides applied.\<close>

definition facilitator_of_config ::
  "('fc option \<Rightarrow> Facilitator) \<Rightarrow> ('price, 'req, 'fc) PaymentMiddlewareConfig \<Rightarrow> Facilitator" where
  "facilitator_of_config useFacilitator cfg =
     (let facilitator = useFacilitator (c_facilitator cfg);
          facilitator = (case verifyFn cfg of None \<Rightarrow> facilitator
                         | Some v \<Rightarrow> facilitator\<lparr>verify := v\<rparr>);
          facilitator = (case settleFn cfg of None \<Rightarrow> facilitator
                         | Some s \<Rightarrow> facilitator\<lparr>settle := s\<rparr>)
      in facilitator)"

text \<open>
  The constructor. The members of the \<^verbatim>\<open>#paymentReq\<close> literal are evaluated
  in order, so \<^verbatim>\<open>getAddress(config.payTo)\<close> throws before the asset address is
  looked at.
\<close>

definition new_PaymentMiddleware ::
  "('fc option \<Rightarrow> Facilitator)
   \<Rightarrow> ('price \<Rightarrow> string \<Rightarrow> string + AtomicAmount)
   \<Rightarrow> (string \<Rightarrow> error_or_string + string)
   \<Rightarrow> ('price, 'req, 'fc) PaymentMiddlewareConfig
   \<Rightarrow> construction_failure + ('price, 'req) PaymentMiddleware" where
  "new_PaymentMiddleware useFacilitator processPriceToAtomicAmount getAddress cfg =
     (case resource_of_config cfg of
        None \<Rightarrow> Inl (ConfigError (new_PaymentMiddlewareConfigError
                  ''Either config.resource or resourceFromRequest must be provided''))
      | Some resource' \<Rightarrow>
          (let processPriceToAtomicAmountFn' =
                 nullish (processPriceToAtomicAmountFn cfg) processPriceToAtomicAmount
           in case processPriceToAtomicAmountFn' (price cfg) (rc_network cfg) of
                Inl err \<Rightarrow> Inl (ConfigError (new_PaymentMiddlewareConfigError err))
              | Inr atomicAmountForAsset \<Rightarrow>
                  (case getAddress (c_payTo cfg) of
                     Inl thrown \<Rightarrow> Inl (AddressError thrown)
                   | Inr payTo' \<Rightarrow>
                       (case getAddress (address (aa_asset atomicAmountForAsset)) of
                          Inl thrown \<Rightarrow> Inl (AddressError thrown)
                        | Inr asset' \<Rightarrow>
                            Inr \<lparr>mw_config = \<lparr>price = price cfg, rc_network = rc_network cfg,
                                               config = config cfg\<rparr>,
                                 mw_facilitator = facilitator_of_config useFacilitator cfg,
                                 mw_paymentReq =
                                   \<lparr>scheme = ''exact'',
                                    network = rc_network cfg,
                                    maxAmountRequired = aa_maxAmountRequired atomicAmountForAsset,
                                    description = nullish (config_field cfg_description cfg) '''',
                                    mimeType = nullish (config_field cfg_mimeType cfg) ''application/json'',
                                    payTo = payTo',
                                    maxTimeoutSeconds = nullish (config_field cfg_maxTimeoutSeconds cfg) 300,
                                    asset = asset',
                                    outputSchema = config_field cfg_outputSchema cfg,
                                    extra = eip712 (aa_asset atomicAmountForAsset)\<rparr>,
                                 mw_resource = resource',
                                 mw_paymentFromRequest = c_paymentFromRequest cfg,
                                 mw_canRenderPaywall = c_canRenderPaywall cfg\<rparr>))))"

text \<open>\<^verbatim>\<open>paymentRequirements(request)\<close>: a fresh object that takes every property of
  the template and then \<^verbatim>\<open>resource\<close>, returned as the only element of an array.\<close>

definition resolve_resource :: "('price, 'req) PaymentMiddleware \<Rightarrow> 'req \<Rightarrow> string" where
  "resolve_resource this request =
     (case mw_resource this of Inr f \<Rightarrow> f request | Inl r \<Rightarrow> r)"

definition paymentRequirements ::
  "('price, 'req) PaymentMiddleware \<Rightarrow> 'req \<Rightarrow> PaymentRequirements list" where
  "paymentRequirements this request =
     (let resource' = resolve_resource this request;
          paymentRequirement = payment_template.extend (mw_paymentReq this)
                                 (PaymentRequirements.fields resource')
      in [paymentRequirement])"

text \<open>
  \<^verbatim>\<open>acquirePayment(request, paymentRequirements)\<close>. A payload object is always
  truthy, so \<^verbatim>\<open>!paymentPayload\<close> holds exactly for \<^verbatim>\<open>undefined\<close>; an absent
  \<^verbatim>\<open>#canRenderPaywall\<close> makes the optional call \<^verbatim>\<open>undefined\<close>, which is falsy.
  A rejection of \<^verbatim>\<open>verify\<close> is not caught here.
\<close>

definition acquirePayment ::
  "(PaymentRequirements list \<Rightarrow> PaymentPayload \<Rightarrow> PaymentRequirements option)
   \<Rightarrow> ('price, 'req) PaymentMiddleware \<Rightarrow> 'req \<Rightarrow> PaymentRequirements list
   \<Rightarrow> event list \<times> (failure + AcquiredPayment option)" where
  "acquirePayment findMatchingPaymentRequirements this request paymentRequirements' =
     (case mw_paymentFromRequest this request of
        Inl err \<Rightarrow> ([], Inl (X402 (new_X402Error err paymentRequirements' None)))
      | Inr None \<Rightarrow>
          if (case mw_canRenderPaywall this of None \<Rightarrow> False | Some f \<Rightarrow> f request)
          then ([], Inr None)
          else ([], Inl (X402 (new_X402Error (AString ''X-PAYMENT header is required'')
                                 paymentRequirements' None)))
      | Inr (Some paymentPayload) \<Rightarrow>
          (case findMatchingPaymentRequirements paymentRequirements' paymentPayload of
             None \<Rightarrow>
               ([], Inl (X402 (new_X402Error
                                 (AString ''Unable to find matching payment requirements'')
                                 paymentRequirements' None)))
           | Some selected' \<Rightarrow>
               ([VerifyCalled paymentPayload selected'],
                (case verify (mw_facilitator this) paymentPayload selected' of
                   Inl rejected \<Rightarrow> Inl (Other rejected)
                 | Inr verification \<Rightarrow>
                     if \<not> isValid verification
                     then Inl (X402 (new_X402Error
                                 (AString (nullish (invalidReason verification)
                                             ''Payment verification failed''))
                                 paymentRequirements'
                                 (vr_payer verification)))
                     else Inr (Some (new_AcquiredPayment paymentPayload selected'
                                       paymentRequirements'
                                       (settle (mw_facilitator this))))))))"

section \<open>The adapters\<close>

text \<open>
  The request handlers that the three \<^verbatim>\<open>paymentMiddleware\<close> factories return, and the
  one of \<^verbatim>\<open>withPayment\<close>. The route table is the function \<open>match\<close>, standing for
  \<^verbatim>\<open>middlewares.match\<close>. \<open>getPaywallHtml\<close> stands for the call of the paywall
  renderer with the arguments the handler computes from the middleware's configuration,
  the request and the requirement list (the display amount is a floating-point number
  and is not computed here).
\<close>

subsection \<open>Shared pieces\<close>

text \<open>\<^verbatim>\<open>String.prototype.toUpperCase\<close> on the ASCII letters of an HTTP method.\<close>

definition toUpperCase_char :: "char \<Rightarrow> char" where
  "toUpperCase_char c =
     (case map_of (zip ''abcdefghijklmnopqrstuvwxyz'' ''ABCDEFGHIJKLMNOPQRSTUVWXYZ'') c of
        None \<Rightarrow> c
      | Some u \<Rightarrow> u)"

definition toUpperCase :: "string \<Rightarrow> string" where
  "toUpperCase s = map toUpperCase_char s"

text \<open>\<^verbatim>\<open>String.prototype.includes\<close>.\<close>

fun starts_with :: "string \<Rightarrow> string \<Rightarrow> bool" where
  "starts_with s [] = True"
| "starts_with [] (c # cs) = False"
| "starts_with (d # ds) (c # cs) = (d = c \<and> starts_with ds cs)"

fun String_includes :: "string \<Rightarrow> string \<Rightarrow> bool" where
  "String_includes [] sub = (sub = [])"
| "String_includes (d # ds) sub = (starts_with (d # ds) sub \<or> String_includes ds sub)"

text \<open>
  The body shared by the three \<^verbatim>\<open>paymentFromRequest\<close> functions: an absent or empty
  header is no payment, anything else is decoded. And the body shared by the three
  \<^verbatim>\<open>canRenderPaywall\<close> functions, on the \<^verbatim>\<open>User-Agent\<close> and \<^verbatim>\<open>Accept\<close> headers.
\<close>

definition paymentFromHeader ::
  "(string \<Rightarrow> error_or_string + PaymentPayload) \<Rightarrow> string option
   \<Rightarrow> error_or_string + PaymentPayload option" where
  "paymentFromHeader decodePayment paymentHeader =
     (case paymentHeader of
        None \<Rightarrow> Inr None
      | Some h \<Rightarrow>
          if h = [] then Inr None
          else (case decodePayment h of Inl thrown \<Rightarrow> Inl thrown | Inr p \<Rightarrow> Inr (Some p)))"

definition looksLikeBrowser :: "string option \<Rightarrow> string option \<Rightarrow> bool" where
  "looksLikeBrowser userAgentHeader acceptHeader' =
     (let userAgent = (case userAgentHeader of None \<Rightarrow> [] | Some u \<Rightarrow> u);
          acceptHeader = (case acceptHeader' of None \<Rightarrow> [] | Some a \<Rightarrow> a)
      in String_includes acceptHeader ''text/html'' \<and> String_includes userAgent ''Mozilla'')"

type_synonym Headers = "string \<rightharpoonup> string"

datatype body =
    NoBody
  | Text string
  | JSON_stringify "(string \<times> json) list"

record Response =
  status :: nat
  headers :: Headers
  body :: body

text \<open>\<^verbatim>\<open>JSON.stringify(e)\<close> of an \<^verbatim>\<open>X402Error\<close> serializes what its \<^verbatim>\<open>toJSON()\<close> returns.\<close>

definition JSON_stringify_X402Error ::
  "(PaymentRequirements list \<Rightarrow> json) \<Rightarrow> X402Error \<Rightarrow> body" where
  "JSON_stringify_X402Error toJsonSafe e = JSON_stringify (toJSON toJsonSafe e)"

text \<open>\<^verbatim>\<open>customPaywallHtml ?? getPaywallHtml(...)\<close> (Hono, Next.js) and
  \<^verbatim>\<open>customPaywallHtml || getPaywallHtml(...)\<close> (Express).\<close>

definition customPaywallHtml_of :: "('price, 'req) PaymentMiddleware \<Rightarrow> string option" where
  "customPaywallHtml_of x402Middleware =
     (case config (mw_config x402Middleware) of None \<Rightarrow> None
      | Some cc \<Rightarrow> cfg_customPaywallHtml cc)"

definition paywall_html_nullish ::
  "(('price, 'req) PaymentMiddleware \<Rightarrow> 'req \<Rightarrow> PaymentRequirements list \<Rightarrow> string)
   \<Rightarrow> ('price, 'req) PaymentMiddleware \<Rightarrow> 'req \<Rightarrow> PaymentRequirements list \<Rightarrow> string" where
  "paywall_html_nullish getPaywallHtml x402Middleware request reqs =
     nullish (customPaywallHtml_of x402Middleware) (getPaywallHtml x402Middleware request reqs)"

definition paywall_html_or ::
  "(('price, 'req) PaymentMiddleware \<Rightarrow> 'req \<Rightarrow> PaymentRequirements list \<Rightarrow> string)
   \<Rightarrow> ('price, 'req) PaymentMiddleware \<Rightarrow> 'req \<Rightarrow> PaymentRequirements list \<Rightarrow> string" where
  "paywall_html_or getPaywallHtml x402Middleware request reqs =
     (case customPaywallHtml_of x402Middleware of
        None \<Rightarrow> getPaywallHtml x402Middleware request reqs
      | Some html \<Rightarrow> if html = [] then getPaywallHtml x402Middleware request reqs else html)"

subsection \<open>Hono\<close>

record HonoRequest =
  hono_url :: string
  hono_path :: string
  hono_method :: string
  hono_header :: "string \<Rightarrow> string option"

record HonoContext =
  hono_req :: HonoRequest
  hono_res :: Response

text \<open>The two functions the factory hands to \<^verbatim>\<open>PaymentMiddleware.forRoutes\<close>;
  \<open>decodePayment\<close> stands for \<^verbatim>\<open>exact.evm.decodePayment\<close>, which may throw.\<close>

definition hono_paymentFromRequest ::
  "(string \<Rightarrow> error_or_string + PaymentPayload) \<Rightarrow> HonoContext
   \<Rightarrow> error_or_string + PaymentPayload option" where
  "hono_paymentFromRequest decodePayment ctx =
     paymentFromHeader decodePayment (hono_header (hono_req ctx) ''X-Payment'')"

definition hono_canRenderPaywall :: "HonoContext \<Rightarrow> bool" where
  "hono_canRenderPaywall ctx =
     looksLikeBrowser (hono_header (hono_req ctx) ''User-Agent'')
       (hono_header (hono_req ctx) ''Accept'')"

text \<open>How the handler ends: with \<^verbatim>\<open>return next()\<close>, with
  \<^verbatim>\<open>return c.html(html, 402)\<close>, with a plain return that leaves the context as it
  is then, or with an exception that is thrown on.\<close>

datatype hono_outcome =
    HonoReturnedNext "error_or_string + HonoContext"
  | HonoReturnedHtml string nat
  | HonoReturned HonoContext
  | HonoThrew error_or_string

text \<open>The \<^verbatim>\<open>catch\<close> block: an \<^verbatim>\<open>X402Error\<close> replaces \<^verbatim>\<open>c.res\<close>.\<close>

definition hono_catch ::
  "(PaymentRequirements list \<Rightarrow> json) \<Rightarrow> HonoContext \<Rightarrow> failure \<Rightarrow> hono_outcome" where
  "hono_catch toJsonSafe c e =
     (case e of
        X402 x \<Rightarrow>
          (let headers' = (headers (hono_res c))(''Content-Type'' \<mapsto> ''application/json'')
           in HonoReturned (c\<lparr>hono_res := \<lparr>status = 402, headers = headers',
                                            body = JSON_stringify_X402Error toJsonSafe x\<rparr>\<rparr>))
      | Other thrown \<Rightarrow> HonoThrew thrown)"

definition hono_paymentMiddleware ::
  "(PaymentRequirements list \<Rightarrow> PaymentPayload \<Rightarrow> PaymentRequirements option)
   \<Rightarrow> (PaymentRequirements list \<Rightarrow> json)
   \<Rightarrow> (Settlement \<Rightarrow> string)
   \<Rightarrow> (('price, HonoContext) PaymentMiddleware \<Rightarrow> HonoContext \<Rightarrow> PaymentRequirements list \<Rightarrow> string)
   \<Rightarrow> (string \<Rightarrow> string \<Rightarrow> ('price, HonoContext) PaymentMiddleware option)
   \<Rightarrow> HonoContext \<Rightarrow> (HonoContext \<Rightarrow> error_or_string + HonoContext)
   \<Rightarrow> event list \<times> hono_outcome" where
  "hono_paymentMiddleware findMatchingPaymentRequirements toJsonSafe settleResponseHeader
       getPaywallHtml match c next =
     (case match (hono_path (hono_req c)) (toUpperCase (hono_method (hono_req c))) of
        None \<Rightarrow> ([DownstreamCalled], HonoReturnedNext (next c))
      | Some x402Middleware \<Rightarrow>
          (let paymentRequirements' = paymentRequirements x402Middleware c;
               acquired = acquirePayment findMatchingPaymentRequirements x402Middleware c
                            paymentRequirements'
           in case snd acquired of
                Inl e \<Rightarrow> (fst acquired, hono_catch toJsonSafe c e)
              | Inr None \<Rightarrow>
                  (fst acquired,
                   HonoReturnedHtml
                     (paywall_html_nullish getPaywallHtml x402Middleware c paymentRequirements') 402)
              | Inr (Some payment) \<Rightarrow>
                  (case next c of
                     Inl thrown \<Rightarrow>
                       (fst acquired @ [DownstreamCalled], hono_catch toJsonSafe c (Other thrown))
                   | Inr c' \<Rightarrow>
                       if status (hono_res c') \<ge> 400
                       then (fst acquired @ [DownstreamCalled], HonoReturned c')
                       else
                         (let settled = settle_payment payment
                          in case snd settled of
                               Inl e \<Rightarrow>
                                 (fst acquired @ [DownstreamCalled] @ fst settled,
                                  hono_catch toJsonSafe c' e)
                             | Inr settlement \<Rightarrow>
                                 (fst acquired @ [DownstreamCalled] @ fst settled,
                                  HonoReturned (c'\<lparr>hono_res := (hono_res c')
                                    \<lparr>headers := (headers (hono_res c'))
                                       (''X-PAYMENT-RESPONSE'' \<mapsto>
                                          settleResponseHeader settlement)\<rparr>\<rparr>))))))"

subsection \<open>Express\<close>

record ExpressRequest =
  express_path :: string
  express_method :: string
  express_originalUrl :: string
  express_header :: "string \<Rightarrow> string option"

definition express_paymentFromRequest ::
  "(string \<Rightarrow> error_or_string + PaymentPayload) \<Rightarrow> ExpressRequest
   \<Rightarrow> error_or_string + PaymentPayload option" where
  "express_paymentFromRequest decodePayment req =
     paymentFromHeader decodePayment (express_header req ''X-PAYMENT'')"

definition express_canRenderPaywall :: "ExpressRequest \<Rightarrow> bool" where
  "express_canRenderPaywall req =
     looksLikeBrowser (express_header req ''User-Agent'') (express_header req ''Accept'')"

text \<open>The two members of \<^verbatim>\<open>res\<close> that the handler reads.\<close>

record ExpressResponse =
  statusCode :: nat
  headersSent :: bool

text \<open>
  What \<^verbatim>\<open>next(); await deferred.promise\<close> can do: \<^verbatim>\<open>next()\<close> throws; or the
  downstream handler never calls the patched \<^verbatim>\<open>res.end\<close>, and the promise stays
  pending; or it calls \<^verbatim>\<open>res.end(...args)\<close>, which resolves the promise with the
  arguments, and \<^verbatim>\<open>res\<close> is as the handler left it.
\<close>

datatype express_downstream =
    NextThrew error_or_string
  | NeverEnded
  | Ended EndArgs ExpressResponse

datatype express_outcome =
    ExpressResolved
  | ExpressRejected error_or_string
  | ExpressPending

text \<open>The \<^verbatim>\<open>catch\<close> block: the calls on \<^verbatim>\<open>res\<close> and how the handler goes on.\<close>

definition express_catch ::
  "(PaymentRequirements list \<Rightarrow> json) \<Rightarrow> ExpressResponse \<Rightarrow> failure
   \<Rightarrow> event list \<times> express_outcome" where
  "express_catch toJsonSafe res e =
     (case e of
        X402 x \<Rightarrow>
          if \<not> headersSent res
          then ([ResStatus 402, ResJson (toJSON toJsonSafe x)], ExpressResolved)
          else ([], ExpressResolved)
      | Other thrown \<Rightarrow> ([], ExpressRejected thrown))"

text \<open>
  The handler. Once a payment is acquired it replaces \<^verbatim>\<open>res.end\<close> by a function that
  captures its arguments and resolves the deferred promise, and calls \<^verbatim>\<open>next()\<close>.
  The \<^verbatim>\<open>finally\<close> block runs after the \<^verbatim>\<open>try\<close> and the \<^verbatim>\<open>catch\<close> block on every path
  that comes back from the \<^verbatim>\<open>await\<close>: it puts the original \<^verbatim>\<open>res.end\<close> back, and the
  original \<^verbatim>\<open>res.end\<close> is called with the captured arguments once the deferred promise
  is resolved; on the paths that never patched \<^verbatim>\<open>res.end\<close> the promise stays pending
  and nothing is called. So the \<^verbatim>\<open>catch\<close> block calls \<^verbatim>\<open>res.status(402).json(...)\<close>
  while the capturing function is still installed.
\<close>

definition express_paymentMiddleware ::
  "(PaymentRequirements list \<Rightarrow> PaymentPayload \<Rightarrow> PaymentRequirements option)
   \<Rightarrow> (PaymentRequirements list \<Rightarrow> json)
   \<Rightarrow> (Settlement \<Rightarrow> string)
   \<Rightarrow> (('price, ExpressRequest) PaymentMiddleware \<Rightarrow> ExpressRequest \<Rightarrow> PaymentRequirements list \<Rightarrow> string)
   \<Rightarrow> (string \<Rightarrow> string \<Rightarrow> ('price, ExpressRequest) PaymentMiddleware option)
   \<Rightarrow> ExpressRequest \<Rightarrow> ExpressResponse
   \<Rightarrow> (ExpressRequest \<Rightarrow> ExpressResponse \<Rightarrow> express_downstream)
   \<Rightarrow> event list \<times> express_outcome" where
  "express_paymentMiddleware findMatchingPaymentRequirements toJsonSafe settleResponseHeader
       getPaywallHtml match req res next =
     (case match (express_path req) (toUpperCase (express_method req)) of
        None \<Rightarrow>
          (case next req res of
             NextThrew thrown \<Rightarrow> ([DownstreamCalled], ExpressRejected thrown)
           | NeverEnded \<Rightarrow> ([DownstreamCalled], ExpressResolved)
           | Ended args res' \<Rightarrow> ([DownstreamCalled], ExpressResolved))
      | Some x402Middleware \<Rightarrow>
          (let paymentRequirements' = paymentRequirements x402Middleware req;
               acquired = acquirePayment findMatchingPaymentRequirements x402Middleware req
                            paymentRequirements'
           in case snd acquired of
                Inl e \<Rightarrow>
                  (let caught = express_catch toJsonSafe res e
                   in (fst acquired @ fst caught @ [ResEndRestored], snd caught))
              | Inr None \<Rightarrow>
                  (fst acquired @
                     [ResStatus 402,
                      ResSend (paywall_html_or getPaywallHtml x402Middleware req
                                 paymentRequirements'),
                      ResEndRestored],
                   ExpressResolved)
              | Inr (Some payment) \<Rightarrow>
                  (case next req res of
                     NextThrew thrown \<Rightarrow>
                       (fst acquired @ [ResEndPatched, DownstreamCalled, ResEndRestored],
                        ExpressRejected thrown)
                   | NeverEnded \<Rightarrow>
                       (fst acquired @ [ResEndPatched, DownstreamCalled], ExpressPending)
                   | Ended args res' \<Rightarrow>
                       if statusCode res' \<ge> 400
                       then (fst acquired
                               @ [ResEndPatched, DownstreamCalled, ResEndRestored, ResEnd args],
                             ExpressResolved)
                       else
                         (let settled = settle_payment payment
                          in case snd settled of
                               Inl e \<Rightarrow>
                                 (let caught = express_catch toJsonSafe res' e
                                  in (fst acquired @ [ResEndPatched, DownstreamCalled]
                                        @ fst settled @ fst caught
                                        @ [ResEndRestored, ResEnd args],
                                      snd caught))
                             | Inr settlement \<Rightarrow>
                                 (fst acquired @ [ResEndPatched, DownstreamCalled]
                                    @ fst settled
                                    @ [ResSetHeader ''X-PAYMENT-RESPONSE''
                                         (settleResponseHeader settlement),
                                       ResEndRestored,
                                       ResEnd args],
                                  ExpressResolved)))))"

text \<open>
  What the calls of a run put on the wire. Express finishes \<^verbatim>\<open>res.send\<close> and
  \<^verbatim>\<open>res.json\<close> by calling \<^verbatim>\<open>this.end\<close>, the function that is installed on the response
  object at that moment. The original \<^verbatim>\<open>res.end\<close> writes the head, with the status code
  the object has then, and the body, once; the capturing function writes nothing (and
  its second call cannot resolve the deferred promise again).
\<close>

datatype written_body =
    JsonBody "(string \<times> json) list"
  | HtmlBody string
  | EndBody EndArgs

record ExpressWire =
  wire_statusCode :: nat
  wire_end_patched :: bool
  wire_written :: "(nat \<times> written_body) option"

definition originalEnd :: "written_body \<Rightarrow> ExpressWire \<Rightarrow> ExpressWire" where
  "originalEnd b w =
     (case wire_written w of
        None \<Rightarrow> w\<lparr>wire_written := Some (wire_statusCode w, b)\<rparr>
      | Some sent \<Rightarrow> w)"

definition this_end :: "written_body \<Rightarrow> ExpressWire \<Rightarrow> ExpressWire" where
  "this_end b w = (if wire_end_patched w then w else originalEnd b w)"

fun res_call :: "ExpressWire \<Rightarrow> event \<Rightarrow> ExpressWire" where
  "res_call w ResEndPatched = w\<lparr>wire_end_patched := True\<rparr>"
| "res_call w ResEndRestored = w\<lparr>wire_end_patched := False\<rparr>"
| "res_call w (ResStatus code) = w\<lparr>wire_statusCode := code\<rparr>"
| "res_call w (ResJson obj) = this_end (JsonBody obj) w"
| "res_call w (ResSend html) = this_end (HtmlBody html) w"
| "res_call w (ResEnd args) = originalEnd (EndBody args) w"
| "res_call w (ResSetHeader k v) = w"
| "res_call w (VerifyCalled p r) = w"
| "res_call w (SettleCalled p r) = w"
| "res_call w DownstreamCalled = w"

text \<open>The status and the body that the events of a run write; \<open>code\<close> is the status
  code of the response object when the handler makes its first call on it (the one the
  route handler left, if it ran).\<close>

definition express_written :: "nat \<Rightarrow> event list \<Rightarrow> (nat \<times> written_body) option" where
  "express_written code events =
     wire_written (foldl res_call
                     \<lparr>wire_statusCode = code, wire_end_patched = False, wire_written = None\<rparr>
                     events)"

subsection \<open>Next.js\<close>

record NextRequest =
  next_pathname :: string
  next_method :: string
  next_url :: string
  next_header :: "string \<Rightarrow> string option"

definition next_paymentFromRequest ::
  "(string \<Rightarrow> error_or_string + PaymentPayload) \<Rightarrow> NextRequest
   \<Rightarrow> error_or_string + PaymentPayload option" where
  "next_paymentFromRequest decodePayment req =
     paymentFromHeader decodePayment (next_header req ''X-PAYMENT'')"

definition next_canRenderPaywall :: "NextRequest \<Rightarrow> bool" where
  "next_canRenderPaywall req =
     looksLikeBrowser (next_header req ''User-Agent'') (next_header req ''Accept'')"

text \<open>What the handlers return: \<^verbatim>\<open>NextResponse.next()\<close> with the headers set on it
  afterwards, or a response of their own (\<^verbatim>\<open>new NextResponse(body, init)\<close>, or the
  response of the wrapped route handler).\<close>

datatype NextResponse =
    NextResponse_next Headers
  | NextResponse_new Response

definition next_catch ::
  "(PaymentRequirements list \<Rightarrow> json) \<Rightarrow> failure \<Rightarrow> error_or_string + NextResponse" where
  "next_catch toJsonSafe e =
     (case e of
        X402 x \<Rightarrow>
          Inr (NextResponse_new
                 \<lparr>status = 402,
                  headers = [''Content-Type'' \<mapsto> ''application/json''],
                  body = JSON_stringify_X402Error toJsonSafe x\<rparr>)
      | Other thrown \<Rightarrow> Inl thrown)"

definition next_paywall :: "string \<Rightarrow> NextResponse" where
  "next_paywall html =
     NextResponse_new \<lparr>status = 402, headers = [''Content-Type'' \<mapsto> ''text/html''],
                       body = Text html\<rparr>"

text \<open>
  \<^verbatim>\<open>paymentMiddleware\<close> of the Next.js adapter. The handler never calls the protected
  route: it returns \<^verbatim>\<open>NextResponse.next()\<close>, and settles before it returns.
\<close>

definition next_paymentMiddleware ::
  "(PaymentRequirements list \<Rightarrow> PaymentPayload \<Rightarrow> PaymentRequirements option)
   \<Rightarrow> (PaymentRequirements list \<Rightarrow> json)
   \<Rightarrow> (Settlement \<Rightarrow> string)
   \<Rightarrow> (('price, NextRequest) PaymentMiddleware \<Rightarrow> NextRequest \<Rightarrow> PaymentRequirements list \<Rightarrow> string)
   \<Rightarrow> (string \<Rightarrow> string \<Rightarrow> ('price, NextRequest) PaymentMiddleware option)
   \<Rightarrow> NextRequest
   \<Rightarrow> event list \<times> (error_or_string + NextResponse)" where
  "next_paymentMiddleware findMatchingPaymentRequirements toJsonSafe settleResponseHeader
       getPaywallHtml match request =
     (case match (next_pathname request) (toUpperCase (next_method request)) of
        None \<Rightarrow> ([], Inr (NextResponse_next Map.empty))
      | Some x402Middleware \<Rightarrow>
          (let paymentRequirements' = paymentRequirements x402Middleware request;
               acquired = acquirePayment findMatchingPaymentRequirements x402Middleware request
                            paymentRequirements'
           in case snd acquired of
                Inl e \<Rightarrow> (fst acquired, next_catch toJsonSafe e)
              | Inr None \<Rightarrow>
                  (fst acquired,
                   Inr (next_paywall (paywall_html_nullish getPaywallHtml x402Middleware request
                                        paymentRequirements')))
              | Inr (Some payment) \<Rightarrow>
                  (let settled = settle_payment payment
                   in case snd settled of
                        Inl e \<Rightarrow> (fst acquired @ fst settled, next_catch toJsonSafe e)
                      | Inr settlement \<Rightarrow>
                          (fst acquired @ fst settled,
                           Inr (NextResponse_next
                                  [''X-PAYMENT-RESPONSE'' \<mapsto>
                                     settleResponseHeader settlement])))))"

text \<open>
  The handler that \<^verbatim>\<open>withPayment(handler, config)\<close> returns, for the middleware
  instance it has constructed from \<^verbatim>\<open>config\<close>.
\<close>

definition next_withPayment ::
  "(PaymentRequirements list \<Rightarrow> PaymentPayload \<Rightarrow> PaymentRequirements option)
   \<Rightarrow> (PaymentRequirements list \<Rightarrow> json)
   \<Rightarrow> (Settlement \<Rightarrow> string)
   \<Rightarrow> (('price, NextRequest) PaymentMiddleware \<Rightarrow> NextRequest \<Rightarrow> PaymentRequirements list \<Rightarrow> string)
   \<Rightarrow> ('price, NextRequest) PaymentMiddleware
   \<Rightarrow> (NextRequest \<Rightarrow> error_or_string + Response)
   \<Rightarrow> NextRequest
   \<Rightarrow> event list \<times> (error_or_string + NextResponse)" where
  "next_withPayment findMatchingPaymentRequirements toJsonSafe settleResponseHeader
       getPaywallHtml x402Middleware handler request =
     (let paymentRequirements' = paymentRequirements x402Middleware request;
          acquired = acquirePayment findMatchingPaymentRequirements x402Middleware request
                       paymentRequirements'
      in case snd acquired of
           Inl e \<Rightarrow> (fst acquired, next_catch toJsonSafe e)
         | Inr None \<Rightarrow>
             (fst acquired,
              Inr (next_paywall (paywall_html_nullish getPaywallHtml x402Middleware request
                                   paymentRequirements')))
         | Inr (Some payment) \<Rightarrow>
             (case handler request of
                Inl thrown \<Rightarrow>
                  (fst acquired @ [DownstreamCalled], next_catch toJsonSafe (Other thrown))
              | Inr response \<Rightarrow>
                  (let settled = settle_payment payment
                   in case snd settled of
                        Inl e \<Rightarrow>
                          (fst acquired @ [DownstreamCalled] @ fst settled,
                           next_catch toJsonSafe e)
                      | Inr settlement \<Rightarrow>
                          (fst acquired @ [DownstreamCalled] @ fst settled,
                           Inr (NextResponse_new (response
                                  \<lparr>headers := (headers response)
                                     (''X-PAYMENT-RESPONSE'' \<mapsto>
                                        settleResponseHeader settlement)\<rparr>))))))"

text \<open>
  One request through a Next.js application whose middleware is \<open>middleware\<close>:
  \<^verbatim>\<open>NextResponse.next()\<close> continues routing, as the adapter's comment says, so the
  protected route handler runs after the middleware has returned; any other response
  of the middleware ends the request. The result is the events of the whole request
  and what the route handler answered, if it ran.
\<close>

definition next_request ::
  "(NextRequest \<Rightarrow> event list \<times> (error_or_string + NextResponse))
   \<Rightarrow> (NextRequest \<Rightarrow> error_or_string + Response)
   \<Rightarrow> NextRequest
   \<Rightarrow> event list \<times> (error_or_string + Response) option" where
  "next_request middleware handler request =
     (case snd (middleware request) of
        Inr (NextResponse_next hs) \<Rightarrow>
          (fst (middleware request) @ [DownstreamCalled], Some (handler request))
      | Inr (NextResponse_new response) \<Rightarrow> (fst (middleware request), None)
      | Inl thrown \<Rightarrow> (fst (middleware request), None))"

section \<open>Objects in a store\<close>

text \<open>
  \<^verbatim>\<open>paymentRequirements\<close> builds its result with
  \<^verbatim>\<open>Object.assign({}, this.#paymentReq, {resource: resource})\<close>, which writes into its
  first argument. Whether the template is touched depends on which object that is, so
  the call is also modelled on a store of objects: an object is the list of its own
  properties in insertion order, and an address is an index into the store.
\<close>

type_synonym object = "(string \<times> json) list"

type_synonym store = "object list"

fun set_property :: "object \<Rightarrow> string \<Rightarrow> json \<Rightarrow> object" where
  "set_property [] k v = [(k, v)]"
| "set_property ((k', v') # ps) k v =
     (if k' = k then (k, v) # ps else (k', v') # set_property ps k v)"

text \<open>One source of \<^verbatim>\<open>Object.assign\<close>: each of its properties is written to the
  target, in order.\<close>

fun assign_from :: "object \<Rightarrow> object \<Rightarrow> object" where
  "assign_from target [] = target"
| "assign_from target ((k, v) # ps) = assign_from (set_property target k v) ps"

fun Object_assign :: "store \<Rightarrow> nat \<Rightarrow> nat list \<Rightarrow> store" where
  "Object_assign st target [] = st"
| "Object_assign st target (source # sources) =
     Object_assign (st[target := assign_from (st ! target) (st ! source)]) target sources"

text \<open>The object that the \<^verbatim>\<open>#paymentReq\<close> literal of the constructor creates, and the
  object of a full requirement.\<close>

definition object_of_template :: "'a payment_template_scheme \<Rightarrow> object" where
  "object_of_template t =
     [(''scheme'', JString (scheme t)),
      (''network'', JString (network t)),
      (''maxAmountRequired'', JString (maxAmountRequired t)),
      (''description'', JString (description t)),
      (''mimeType'', JString (mimeType t)),
      (''payTo'', JString (payTo t)),
      (''maxTimeoutSeconds'', JNumber (maxTimeoutSeconds t)),
      (''asset'', JString (asset t)),
      (''outputSchema'', (case outputSchema t of None \<Rightarrow> JUndefined | Some j \<Rightarrow> j)),
      (''extra'', extra t)]"

definition object_of_requirements :: "PaymentRequirements \<Rightarrow> object" where
  "object_of_requirements r = object_of_template r @ [(''resource'', JString (resource r))]"

text \<open>
  \<^verbatim>\<open>paymentRequirements\<close> on the store: \<open>paymentReq\<close> is the address of
  \<^verbatim>\<open>this.#paymentReq\<close> and \<open>resource'\<close> the resolved resource. Two objects are
  allocated, the empty target and the \<^verbatim>\<open>{resource}\<close> literal; the result is the new
  store and the address of the one element of the returned array.
\<close>

definition paymentRequirements_in_store :: "store \<Rightarrow> nat \<Rightarrow> string \<Rightarrow> store \<times> nat" where
  "paymentRequirements_in_store st paymentReq resource' =
     (let target = length st;
          st = st @ [[]];
          source = length st;
          st = st @ [[(''resource'', JString resource')]];
          st = Object_assign st target [paymentReq, source]
      in (st, target))"

section \<open>The configuration of the test suites\<close>

text \<open>
  The route, the payment and the doubles of the adapters' test suite: the route
  \<^verbatim>\<open>/weather\<close> at \<^verbatim>\<open>$0.001\<close> on \<^verbatim>\<open>base-sepolia\<close>, a verifier that accepts, a
  settler that succeeds. The definitions named \<open>stub_\<close> stand in for the collaborators
  of other packages and fix only what the tests expect of them.
\<close>

definition validPayment :: PaymentPayload where
  "validPayment =
     \<lparr>pp_x402Version = 1, pp_scheme = ''exact'', pp_network = ''base-sepolia'',
      pp_payload = JObject [(''signature'', JString ''0x123'')]\<rparr>"

definition stub_decodePayment :: "string \<Rightarrow> error_or_string + PaymentPayload" where
  "stub_decodePayment h =
     (if h = ''encoded-payment'' then Inr validPayment
      else Inl (AnError ''Error'' ''Invalid payment''))"

definition stub_processPriceToAtomicAmount :: "string \<Rightarrow> string \<Rightarrow> string + AtomicAmount" where
  "stub_processPriceToAtomicAmount price' network' =
     (if price' = ''$0.001''
      then Inr \<lparr>aa_maxAmountRequired = ''1000'',
                aa_asset = \<lparr>address = ''0x036CbD53842c5426634e7929541eC2318f3dCF7e'',
                            decimals = 6,
                            eip712 = JObject [(''name'', JString ''USDC''),
                                              (''version'', JString ''2'')]\<rparr>\<rparr>
      else if price' = ''$0.01''
      then Inr \<lparr>aa_maxAmountRequired = ''10000'',
                aa_asset = \<lparr>address = ''0x833589fCD6eDb6E08f4c7C32D4f71b54bdA02913'',
                            decimals = 6,
                            eip712 = JObject [(''name'', JString ''USD Coin''),
                                              (''version'', JString ''2'')]\<rparr>\<rparr>
      else Inl ''Invalid price'')"

definition stub_getAddress :: "string \<Rightarrow> error_or_string + string" where
  "stub_getAddress a =
     (if length a = 42 then Inr a else Inl (AnError ''InvalidAddressError'' a))"

definition stub_verify ::
  "PaymentPayload \<Rightarrow> PaymentRequirements \<Rightarrow> error_or_string + VerifyResponse" where
  "stub_verify p r = Inr \<lparr>isValid = True, invalidReason = None, vr_payer = None\<rparr>"

definition stub_settle ::
  "PaymentPayload \<Rightarrow> PaymentRequirements \<Rightarrow> error_or_string + SettleResponse" where
  "stub_settle p r =
     Inr \<lparr>success = True, errorReason = None, sr_payer = None,
          sr_transaction = ''0x123'', sr_network = ''base-sepolia''\<rparr>"

definition stub_useFacilitator :: "string option \<Rightarrow> Facilitator" where
  "stub_useFacilitator facilitatorConfig = \<lparr>verify = stub_verify, settle = stub_settle\<rparr>"

definition stub_findMatchingPaymentRequirements ::
  "PaymentRequirements list \<Rightarrow> PaymentPayload \<Rightarrow> PaymentRequirements option" where
  "stub_findMatchingPaymentRequirements reqs p =
     find (\<lambda>r. scheme r = pp_scheme p \<and> network r = pp_network p) reqs"

definition stub_toJsonSafe :: "PaymentRequirements list \<Rightarrow> json" where
  "stub_toJsonSafe reqs = JArray (map (\<lambda>r. JObject (object_of_requirements r)) reqs)"

definition stub_settleResponseHeader :: "Settlement \<Rightarrow> string" where
  "stub_settleResponseHeader settlement = ''settled '' @ st_transaction settlement"

definition stub_getPaywallHtml ::
  "(string, 'req) PaymentMiddleware \<Rightarrow> 'req \<Rightarrow> PaymentRequirements list \<Rightarrow> string" where
  "stub_getPaywallHtml x402Middleware request reqs = ''<html>Paywall</html>''"

definition weather_config ::
  "('req \<Rightarrow> error_or_string + PaymentPayload option) \<Rightarrow> ('req \<Rightarrow> bool)
   \<Rightarrow> (string, 'req, string) PaymentMiddlewareConfig" where
  "weather_config paymentFromRequest' canRenderPaywall' =
     \<lparr>price = ''$0.001'', rc_network = ''base-sepolia'',
      config = Some \<lparr>cfg_resource = Some ''https://api.example.com/resource'',
                     cfg_description = Some ''Test payment'',
                     cfg_mimeType = Some ''application/json'',
                     cfg_maxTimeoutSeconds = Some 300,
                     cfg_outputSchema = Some (JObject [(''type'', JString ''object'')]),
                     cfg_customPaywallHtml = None\<rparr>,
      c_payTo = ''0x1234567890123456789012345678901234567890'',
      c_facilitator = Some ''https://facilitator.example.com'',
      resourceFromRequest = None,
      c_canRenderPaywall = Some canRenderPaywall',
      c_paymentFromRequest = paymentFromRequest',
      processPriceToAtomicAmountFn = None,
      verifyFn = Some stub_verify,
      settleFn = Some stub_settle\<rparr>"

text \<open>The requirement the test suite expects in \<^verbatim>\<open>accepts\<close>.\<close>

definition weather_requirement :: PaymentRequirements where
  "weather_requirement =
     \<lparr>scheme = ''exact'', network = ''base-sepolia'', maxAmountRequired = ''1000'',
      description = ''Test payment'', mimeType = ''application/json'',
      payTo = ''0x1234567890123456789012345678901234567890'',
      maxTimeoutSeconds = 300,
      asset = ''0x036CbD53842c5426634e7929541eC2318f3dCF7e'',
      outputSchema = Some (JObject [(''type'', JString ''object'')]),
      extra = JObject [(''name'', JString ''USDC''), (''version'', JString ''2'')],
      resource = ''https://api.example.com/resource''\<rparr>"

text \<open>The instance that the constructor builds from \<open>weather_config\<close>.\<close>

definition weather_middleware ::
  "('req \<Rightarrow> error_or_string + PaymentPayload option) \<Rightarrow> ('req \<Rightarrow> bool)
   \<Rightarrow> (string, 'req) PaymentMiddleware" where
  "weather_middleware paymentFromRequest' canRenderPaywall' =
     \<lparr>mw_config = RouteConfig.truncate (weather_config paymentFromRequest' canRenderPaywall'),
      mw_facilitator = \<lparr>verify = stub_verify, settle = stub_settle\<rparr>,
      mw_paymentReq = payment_template.truncate weather_requirement,
      mw_resource = Inl ''https://api.example.com/resource'',
      mw_paymentFromRequest = paymentFromRequest',
      mw_canRenderPaywall = Some canRenderPaywall'\<rparr>"

text \<open>The route table of the tests: one protected route.\<close>

definition weather_match ::
  "(string, 'req) PaymentMiddleware \<Rightarrow> string \<Rightarrow> string \<Rightarrow> (string, 'req) PaymentMiddleware option" where
  "weather_match x402Middleware path' method' =
     (if path' = ''/weather'' \<and> method' = ''GET'' then Some x402Middleware else None)"

text \<open>A paid request for each adapter, and a downstream handler that answers 500.\<close>

definition paid_header :: "string \<Rightarrow> string option" where
  "paid_header nm =
     (if toUpperCase nm = ''X-PAYMENT'' then Some ''encoded-payment'' else None)"

definition hono_paid :: HonoContext where
  "hono_paid =
     \<lparr>hono_req = \<lparr>hono_url = ''http://localhost:3000/weather'', hono_path = ''/weather'',
                   hono_method = ''GET'', hono_header = paid_header\<rparr>,
      hono_res = \<lparr>status = 200, headers = Map.empty, body = NoBody\<rparr>\<rparr>"

definition hono_failing_next :: "HonoContext \<Rightarrow> error_or_string + HonoContext" where
  "hono_failing_next c = Inr (c\<lparr>hono_res := (hono_res c)\<lparr>status := 500\<rparr>\<rparr>)"

definition hono_weather :: "(string, HonoContext) PaymentMiddleware" where
  "hono_weather =
     weather_middleware (hono_paymentFromRequest stub_decodePayment) hono_canRenderPaywall"

definition express_paid :: ExpressRequest where
  "express_paid =
     \<lparr>express_path = ''/weather'', express_method = ''GET'',
      express_originalUrl = ''/weather'', express_header = paid_header\<rparr>"

definition express_failing_next :: "ExpressRequest \<Rightarrow> ExpressResponse \<Rightarrow> express_downstream" where
  "express_failing_next req res =
     Ended (EndArgs [JString ''Internal Server Error'']) (res\<lparr>statusCode := 500\<rparr>)"

definition express_weather :: "(string, ExpressRequest) PaymentMiddleware" where
  "express_weather =
     weather_middleware (express_paymentFromRequest stub_decodePayment) express_canRenderPaywall"

text \<open>A route handler that answers 200 with the protected content.\<close>

definition express_serving_next :: "ExpressRequest \<Rightarrow> ExpressResponse \<Rightarrow> express_downstream" where
  "express_serving_next req res = Ended (EndArgs [JString ''sunny'']) res"

definition next_paid :: NextRequest where
  "next_paid =
     \<lparr>next_pathname = ''/weather'', next_method = ''GET'',
      next_url = ''http://localhost:3000/weather'', next_header = paid_header\<rparr>"

definition next_failing_handler :: "NextRequest \<Rightarrow> error_or_string + Response" where
  "next_failing_handler request =
     Inr \<lparr>status = 500, headers = Map.empty, body = Text ''Internal Server Error''\<rparr>"

definition next_weather :: "(string, NextRequest) PaymentMiddleware" where
  "next_weather =
     weather_middleware (next_paymentFromRequest stub_decodePayment) next_canRenderPaywall"

text \<open>Requests without a payment: one from a JSON client, one from a browser.\<close>

definition json_header :: "string \<Rightarrow> string option" where
  "json_header nm = (if toUpperCase nm = ''ACCEPT'' then Some ''application/json'' else None)"

definition browser_header :: "string \<Rightarrow> string option" where
  "browser_header nm =
     (if nm = ''Accept'' then Some ''text/html''
      else if nm = ''User-Agent'' then Some ''Mozilla/5.0''
      else None)"

definition hono_unpaid :: HonoContext where
  "hono_unpaid = hono_paid\<lparr>hono_req := (hono_req hono_paid)\<lparr>hono_header := json_header\<rparr>\<rparr>"

definition hono_browser :: HonoContext where
  "hono_browser = hono_paid\<lparr>hono_req := (hono_req hono_paid)\<lparr>hono_header := browser_header\<rparr>\<rparr>"

definition express_unpaid :: ExpressRequest where
  "express_unpaid = express_paid\<lparr>express_header := json_header\<rparr>"

definition express_fresh_res :: ExpressResponse where
  "express_fresh_res = \<lparr>statusCode = 200, headersSent = False\<rparr>"

definition next_unpaid :: NextRequest where
  "next_unpaid = next_paid\<lparr>next_header := json_header\<rparr>"

text \<open>The doubles of the unit tests of the core: a verifier that refuses, a settler that
  throws, a settler that reports a failure, and a payment to settle.\<close>

definition refusing_verify ::
  "PaymentPayload \<Rightarrow> PaymentRequirements \<Rightarrow> error_or_string + VerifyResponse" where
  "refusing_verify p r =
     Inr \<lparr>isValid = False, invalidReason = Some ''insufficient_funds'',
          vr_payer = Some ''0xdef''\<rparr>"

definition throwing_settle ::
  "PaymentPayload \<Rightarrow> PaymentRequirements \<Rightarrow> error_or_string + SettleResponse" where
  "throwing_settle p r = Inl (AnError ''Error'' ''Settlement failed'')"

definition failing_settle ::
  "PaymentPayload \<Rightarrow> PaymentRequirements \<Rightarrow> error_or_string + SettleResponse" where
  "failing_settle p r =
     Inr \<lparr>success = False, errorReason = Some ''insufficient_funds'',
          sr_payer = Some ''0xabc'', sr_transaction = ''0x123'', sr_network = ''base''\<rparr>"

definition test_payment ::
  "(PaymentPayload \<Rightarrow> PaymentRequirements \<Rightarrow> error_or_string + SettleResponse)
   \<Rightarrow> AcquiredPayment" where
  "test_payment settle' =
     new_AcquiredPayment validPayment weather_requirement [weather_requirement] settle'"

text \<open>The configuration of the unit tests of the core: only a resource is configured.\<close>

definition unit_config :: "(string, unit, string) PaymentMiddlewareConfig" where
  "unit_config =
     \<lparr>price = ''$0.01'', rc_network = ''base'',
      config = Some \<lparr>cfg_resource = Some ''res://test'', cfg_description = None,
                     cfg_mimeType = None, cfg_maxTimeoutSeconds = None,
                     cfg_outputSchema = None, cfg_customPaywallHtml = None\<rparr>,
      c_payTo = ''0xBAc675C310721717Cd4A37F6cbeA1F081b1C2a07'',
      c_facilitator = None,
      resourceFromRequest = None,
      c_canRenderPaywall = None,
      c_paymentFromRequest = (\<lambda>request. Inr None),
      processPriceToAtomicAmountFn = None,
      verifyFn = None,
      settleFn = None\<rparr>"


text \<open>The body the test suite expects for a request without a payment header.\<close>

definition header_required_body :: "(string \<times> json) list" where
  "header_required_body =
     [(''x402Version'', JNumber 1),
      (''error'', JString ''X-PAYMENT header is required''),
      (''accepts'', stub_toJsonSafe [weather_requirement]),
      (''payer'', JUndefined)]"

text \<open>
  The route with a settler that reports a failure, and the object that the error of
  such a settlement serializes to. The route handler \<open>express_serving_next\<close> (and
  \<open>hono_serving_next\<close> for Hono) has answered 200 with the protected content by then.
\<close>

definition express_unsettled :: "(string, ExpressRequest) PaymentMiddleware" where
  "express_unsettled =
     express_weather\<lparr>mw_facilitator := \<lparr>verify = stub_verify, settle = failing_settle\<rparr>\<rparr>"

definition hono_unsettled :: "(string, HonoContext) PaymentMiddleware" where
  "hono_unsettled =
     hono_weather\<lparr>mw_facilitator := \<lparr>verify = stub_verify, settle = failing_settle\<rparr>\<rparr>"

definition hono_serving_next :: "HonoContext \<Rightarrow> error_or_string + HonoContext" where
  "hono_serving_next c =
     Inr (c\<lparr>hono_res := \<lparr>status = 200, headers = Map.empty, body = Text ''sunny''\<rparr>\<rparr>)"

definition settlement_failed_body :: "(string \<times> json) list" where
  "settlement_failed_body =
     [(''x402Version'', JNumber 1),
      (''error'', JString ''Settlement failed: insufficient_funds''),
      (''accepts'', stub_toJsonSafe [weather_requirement]),
      (''payer'', JString ''0xabc'')]"

section \<open>Facts about the core\<close>

lemma settle_payment_events:
  "fst (settle_payment ap) = [SettleCalled (payload ap) (selected ap)]"
  by (simp add: settle_payment_def)

lemma new_X402Error_fields:
  "xe_error (new_X402Error e reqs p) = e"
  "xe_message (new_X402Error e reqs p) = String_of e"
  "x402Version (new_X402Error e reqs p) = 1"
  "accepts (new_X402Error e reqs p) = reqs"
  "payer (new_X402Error e reqs p) = p"
  by (simp_all add: new_X402Error_def X402_VERSION_def)

text \<open>
  C3. For every acquired payment: when the settler throws or rejects with \<open>e\<close>,
  \<^verbatim>\<open>settle()\<close> raises the protocol error built from \<open>e\<close>, the full requirement list
  and no payer; when the settler returns \<^verbatim>\<open>success: false\<close> with \<^verbatim>\<open>errorReason\<close> \<open>r\<close>,
  it raises a protocol error whose message is \<^verbatim>\<open>Settlement failed: \<close> followed by
  \<open>r\<close>, with the requirement list and the payer the settler reported.
\<close>

theorem settle_raises_protocol_error:
  "(ap_settle ap (payload ap) (selected ap) = Inl e \<longrightarrow>
      (let x = new_X402Error e (requirements ap) None
       in snd (settle_payment ap) = Inl (X402 x)
          \<and> xe_error x = e \<and> accepts x = requirements ap \<and> payer x = None))
   \<and> (ap_settle ap (payload ap) (selected ap) = Inr s \<and> \<not> success s \<and> errorReason s = Some r \<longrightarrow>
      (let x = new_X402Error (AString (''Settlement failed: '' @ r)) (requirements ap) (sr_payer s)
       in snd (settle_payment ap) = Inl (X402 x)
          \<and> xe_message x = ''Settlement failed: '' @ r
          \<and> error_text (xe_error x) = ''Settlement failed: '' @ r
          \<and> accepts x = requirements ap \<and> payer x = sr_payer s))"
  by (simp add: settle_payment_def new_X402Error_fields Let_def)

theorem settle_raises_protocol_error_witness:
  "snd (settle_payment (test_payment throwing_settle)) =
     Inl (X402 (new_X402Error (AnError ''Error'' ''Settlement failed'') [weather_requirement] None))
   \<and> snd (settle_payment (test_payment failing_settle)) =
     Inl (X402 (new_X402Error (AString ''Settlement failed: insufficient_funds'')
                  [weather_requirement] (Some ''0xabc'')))
   \<and> xe_message (new_X402Error (AString ''Settlement failed: insufficient_funds'')
                  [weather_requirement] (Some ''0xabc'')) = ''Settlement failed: insufficient_funds''"
proof -
  have thrown: "ap_settle (test_payment throwing_settle) (payload (test_payment throwing_settle))
                  (selected (test_payment throwing_settle)) = Inl (AnError ''Error'' ''Settlement failed'')"
    by (simp add: test_payment_def new_AcquiredPayment_def throwing_settle_def)
  let ?s = "\<lparr>success = False, errorReason = Some ''insufficient_funds'',
             sr_payer = Some ''0xabc'', sr_transaction = ''0x123'', sr_network = ''base''\<rparr>"
  have failed: "ap_settle (test_payment failing_settle) (payload (test_payment failing_settle))
                  (selected (test_payment failing_settle)) = Inr ?s
                \<and> \<not> success ?s \<and> errorReason ?s = Some ''insufficient_funds''"
    by (simp add: test_payment_def new_AcquiredPayment_def failing_settle_def)
  from thrown
    settle_raises_protocol_error [of "test_payment throwing_settle"
      "AnError ''Error'' ''Settlement failed''" ?s "''insufficient_funds''"]
  have 1: "snd (settle_payment (test_payment throwing_settle)) =
     Inl (X402 (new_X402Error (AnError ''Error'' ''Settlement failed'')
                  (requirements (test_payment throwing_settle)) None))"
    by (simp add: Let_def)
  from failed
    settle_raises_protocol_error [of "test_payment failing_settle"
      "AnError ''Error'' ''Settlement failed''" ?s "''insufficient_funds''"]
  have 2: "snd (settle_payment (test_payment failing_settle)) =
     Inl (X402 (new_X402Error (AString ''Settlement failed: insufficient_funds'')
                  (requirements (test_payment failing_settle)) (Some ''0xabc'')))
     \<and> xe_message (new_X402Error (AString ''Settlement failed: insufficient_funds'')
                  (requirements (test_payment failing_settle)) (Some ''0xabc''))
         = ''Settlement failed: insufficient_funds''"
    by (simp add: Let_def)
  from 1 2 show ?thesis
    by (simp add: test_payment_def new_AcquiredPayment_def)
qed

text \<open>
  C4. For every acquired payment: when the settler returns \<^verbatim>\<open>success: true\<close>,
  \<^verbatim>\<open>settle()\<close> returns the settlement with the transaction, the network and the payer
  of the settler's answer, whether or not a payer is present.
\<close>

theorem settle_returns_settlement:
  assumes "ap_settle ap (payload ap) (selected ap) = Inr s" and "success s"
  shows "snd (settle_payment ap) =
           Inr \<lparr>st_success = True, st_transaction = sr_transaction s,
                st_network = sr_network s, st_payer = sr_payer s\<rparr>"
  using assms by (simp add: settle_payment_def)

theorem settle_returns_settlement_witness:
  "snd (settle_payment (test_payment stub_settle)) =
     Inr \<lparr>st_success = True, st_transaction = ''0x123'',
          st_network = ''base-sepolia'', st_payer = None\<rparr>"
proof -
  let ?s = "\<lparr>success = True, errorReason = None, sr_payer = None,
             sr_transaction = ''0x123'', sr_network = ''base-sepolia''\<rparr>"
  have called: "ap_settle (test_payment stub_settle) (payload (test_payment stub_settle))
                  (selected (test_payment stub_settle)) = Inr ?s"
    by (simp add: test_payment_def new_AcquiredPayment_def stub_settle_def)
  have ok: "success ?s" by simp
  from settle_returns_settlement [OF called ok] show ?thesis by simp
qed


subsection \<open>The worked requests\<close>

lemma paid_header_X_Payment:
  "paid_header ''X-Payment'' = Some ''encoded-payment''"
  "paid_header ''X-PAYMENT'' = Some ''encoded-payment''"
  by (simp_all add: paid_header_def toUpperCase_def toUpperCase_char_def)

lemma json_header_lookups:
  "json_header ''X-Payment'' = None"
  "json_header ''X-PAYMENT'' = None"
  "json_header ''Accept'' = Some ''application/json''"
  "json_header ''User-Agent'' = None"
  by (simp_all add: json_header_def toUpperCase_def toUpperCase_char_def)

lemma browser_header_lookups:
  "browser_header ''X-Payment'' = None"
  "browser_header ''Accept'' = Some ''text/html''"
  "browser_header ''User-Agent'' = Some ''Mozilla/5.0''"
  by (simp_all add: browser_header_def)

lemma hono_extraction:
  "mw_paymentFromRequest hono_weather hono_paid = Inr (Some validPayment)"
  "mw_paymentFromRequest hono_weather hono_unpaid = Inr None"
  "mw_paymentFromRequest hono_weather hono_browser = Inr None"
  by (simp_all add: hono_weather_def weather_middleware_def hono_paymentFromRequest_def
        paymentFromHeader_def hono_paid_def hono_unpaid_def hono_browser_def
        paid_header_X_Payment json_header_lookups browser_header_lookups stub_decodePayment_def)

lemma hono_paywall_predicate:
  "mw_canRenderPaywall hono_weather = Some hono_canRenderPaywall"
  "hono_canRenderPaywall hono_browser"
  "\<not> hono_canRenderPaywall hono_unpaid"
  by (simp_all add: hono_weather_def weather_middleware_def hono_canRenderPaywall_def
        looksLikeBrowser_def hono_paid_def hono_unpaid_def hono_browser_def
        json_header_lookups browser_header_lookups)

lemma weather_constructed:
  "new_PaymentMiddleware stub_useFacilitator stub_processPriceToAtomicAmount stub_getAddress
     (weather_config pfr crp) = Inr (weather_middleware pfr crp)"
  by (simp add: new_PaymentMiddleware_def weather_config_def weather_middleware_def
        resource_of_config_def stub_processPriceToAtomicAmount_def stub_getAddress_def
        facilitator_of_config_def stub_useFacilitator_def config_field_def
        weather_requirement_def RouteConfig.truncate_def payment_template.truncate_def)

lemma weather_requirement_matches:
  "stub_findMatchingPaymentRequirements [weather_requirement] validPayment = Some weather_requirement"
  "stub_findMatchingPaymentRequirements [] validPayment = None"
  by (simp_all add: stub_findMatchingPaymentRequirements_def weather_requirement_def validPayment_def)

subsection \<open>acquirePayment\<close>

text \<open>
  C5. For every request whose payload matches a requirement: when the verifier answers
  \<^verbatim>\<open>isValid = false\<close>, \<^verbatim>\<open>acquirePayment\<close> raises a protocol error whose message is the
  verifier's \<^verbatim>\<open>invalidReason\<close>, or \<^verbatim>\<open>Payment verification failed\<close> when there is
  none, with the full requirement list and the payer the verifier reported, if any.
\<close>

theorem acquirePayment_rejects_invalid_payment:
  assumes "mw_paymentFromRequest this request = Inr (Some p)"
      and "findMatchingPaymentRequirements reqs p = Some sel"
      and "verify (mw_facilitator this) p sel = Inr v"
      and "\<not> isValid v"
  shows "let reason = (case invalidReason v of None \<Rightarrow> ''Payment verification failed''
                                              | Some r \<Rightarrow> r);
             x = new_X402Error (AString reason) reqs (vr_payer v)
         in snd (acquirePayment findMatchingPaymentRequirements this request reqs) = Inl (X402 x)
            \<and> xe_message x = reason \<and> error_text (xe_error x) = reason
            \<and> accepts x = reqs \<and> payer x = vr_payer v"
  using assms
  by (cases "invalidReason v") (simp_all add: acquirePayment_def new_X402Error_fields Let_def)

theorem acquirePayment_rejects_invalid_payment_witness:
  "snd (acquirePayment stub_findMatchingPaymentRequirements
          (hono_weather\<lparr>mw_facilitator := \<lparr>verify = refusing_verify, settle = stub_settle\<rparr>\<rparr>)
          hono_paid [weather_requirement])
     = Inl (X402 (new_X402Error (AString ''insufficient_funds'') [weather_requirement]
                    (Some ''0xdef'')))"
proof -
  let ?mw = "hono_weather\<lparr>mw_facilitator := \<lparr>verify = refusing_verify, settle = stub_settle\<rparr>\<rparr>"
  let ?v = "\<lparr>isValid = False, invalidReason = Some ''insufficient_funds'',
             vr_payer = Some ''0xdef''\<rparr>"
  have extracted: "mw_paymentFromRequest ?mw hono_paid = Inr (Some validPayment)"
    using hono_extraction(1) by simp
  have verified: "verify (mw_facilitator ?mw) validPayment weather_requirement = Inr ?v"
    by (simp add: refusing_verify_def)
  have invalid: "\<not> isValid ?v" by simp
  from acquirePayment_rejects_invalid_payment
         [where findMatchingPaymentRequirements = stub_findMatchingPaymentRequirements,
          OF extracted weather_requirement_matches(1) verified invalid]
  show ?thesis by (simp add: Let_def)
qed

text \<open>
  C6. For every request without a payment payload: when the configured predicate
  says that a paywall can be rendered, \<^verbatim>\<open>acquirePayment\<close> returns \<^verbatim>\<open>undefined\<close>;
  otherwise (the predicate says no, or none is configured) it raises the protocol error
  \<^verbatim>\<open>X-PAYMENT header is required\<close> with the full requirement list. The facilitator is
  not called either way.
\<close>

theorem acquirePayment_without_payload:
  assumes "mw_paymentFromRequest this request = Inr None"
  shows "(mw_canRenderPaywall this = Some canRender \<and> canRender request \<longrightarrow>
            acquirePayment findMatchingPaymentRequirements this request reqs = ([], Inr None))
       \<and> ((mw_canRenderPaywall this = Some canRender \<and> \<not> canRender request)
            \<or> mw_canRenderPaywall this = None \<longrightarrow>
            (let x = new_X402Error (AString ''X-PAYMENT header is required'') reqs None
             in acquirePayment findMatchingPaymentRequirements this request reqs
                  = ([], Inl (X402 x))
                \<and> xe_message x = ''X-PAYMENT header is required''
                \<and> accepts x = reqs))"
  using assms by (auto simp add: acquirePayment_def new_X402Error_fields Let_def)

theorem acquirePayment_without_payload_witness:
  "acquirePayment stub_findMatchingPaymentRequirements hono_weather hono_browser
     [weather_requirement] = ([], Inr None)
   \<and> acquirePayment stub_findMatchingPaymentRequirements hono_weather hono_unpaid
     [weather_requirement]
     = ([], Inl (X402 (new_X402Error (AString ''X-PAYMENT header is required'')
                         [weather_requirement] None)))"
  using acquirePayment_without_payload [OF hono_extraction(3),
          of hono_canRenderPaywall stub_findMatchingPaymentRequirements "[weather_requirement]"]
        acquirePayment_without_payload [OF hono_extraction(2),
          of hono_canRenderPaywall stub_findMatchingPaymentRequirements "[weather_requirement]"]
        hono_paywall_predicate
  by (simp add: Let_def)

text \<open>
  C7. For every request whose payload matches none of the requirements,
  \<^verbatim>\<open>acquirePayment\<close> raises the protocol error
  \<^verbatim>\<open>Unable to find matching payment requirements\<close> with the full requirement list, and
  the verifier is not called.
\<close>

theorem acquirePayment_without_match:
  assumes "mw_paymentFromRequest this request = Inr (Some p)"
      and "findMatchingPaymentRequirements reqs p = None"
  shows "let x = new_X402Error (AString ''Unable to find matching payment requirements'') reqs None
         in snd (acquirePayment findMatchingPaymentRequirements this request reqs) = Inl (X402 x)
            \<and> xe_message x = ''Unable to find matching payment requirements''
            \<and> accepts x = reqs
            \<and> filter is_verify (fst (acquirePayment findMatchingPaymentRequirements this request reqs)) = []"
  using assms by (simp add: acquirePayment_def new_X402Error_fields Let_def)

theorem acquirePayment_without_match_witness:
  "acquirePayment stub_findMatchingPaymentRequirements hono_weather hono_paid []
     = ([], Inl (X402 (new_X402Error (AString ''Unable to find matching payment requirements'')
                         [] None)))"
proof -
  let ?run = "acquirePayment stub_findMatchingPaymentRequirements hono_weather hono_paid []"
  from acquirePayment_without_match
         [where findMatchingPaymentRequirements = stub_findMatchingPaymentRequirements,
          OF hono_extraction(1) weather_requirement_matches(2)]
  have "snd ?run = Inl (X402 (new_X402Error
                     (AString ''Unable to find matching payment requirements'') [] None))"
    and "filter is_verify (fst ?run) = []"
    by (simp_all add: Let_def)
  moreover have "fst ?run = filter is_verify (fst ?run)"
    by (simp add: acquirePayment_def split: sum.splits option.splits)
  ultimately show ?thesis by (simp add: prod_eq_iff)
qed


subsection \<open>The constructor\<close>

lemma resource_of_config_None:
  assumes "config_field cfg_resource cfg \<noteq> Some []"
  shows "resource_of_config cfg = None \<longleftrightarrow>
           config_field cfg_resource cfg = None \<and> resourceFromRequest cfg = None"
  using assms
  by (auto simp add: resource_of_config_def config_field_def split: option.splits if_splits)

lemma new_PaymentMiddleware_ConfigError:
  "new_PaymentMiddleware useFacilitator processPriceToAtomicAmount getAddress cfg = Inl (ConfigError ce)
   \<longleftrightarrow>
     (resource_of_config cfg = None
        \<and> ce = new_PaymentMiddlewareConfigError
                 ''Either config.resource or resourceFromRequest must be provided'')
   \<or> (resource_of_config cfg \<noteq> None
        \<and> (\<exists>err. nullish (processPriceToAtomicAmountFn cfg) processPriceToAtomicAmount
                     (price cfg) (rc_network cfg) = Inl err
                 \<and> ce = new_PaymentMiddlewareConfigError err))"
  by (auto simp add: new_PaymentMiddleware_def Let_def split: option.splits sum.splits)

text \<open>
  C8. Construction fails with a configuration error exactly in two cases: neither
  \<^verbatim>\<open>config.resource\<close> nor \<^verbatim>\<open>resourceFromRequest\<close> is supplied, and the message is
  \<^verbatim>\<open>Either config.resource or resourceFromRequest must be provided\<close>; or one of them
  is supplied and the price conversion reports an error, whose message is the message
  of the configuration error. The constructor returns the error as its own result.
  A supplied resource is a \<^verbatim>\<open>Resource\<close>, a string with \<^verbatim>\<open>://\<close> in it, so it is not
  the empty string.
\<close>

theorem construction_fails_with_ConfigError_iff:
  assumes "config_field cfg_resource cfg \<noteq> Some []"
  shows "new_PaymentMiddleware useFacilitator processPriceToAtomicAmount getAddress cfg
           = Inl (ConfigError ce)
         \<longleftrightarrow>
           (config_field cfg_resource cfg = None \<and> resourceFromRequest cfg = None
              \<and> ce_message ce = ''Either config.resource or resourceFromRequest must be provided''
              \<and> ce_name ce = ''PaymentMiddlewareConfigError'')
         \<or> (\<not> (config_field cfg_resource cfg = None \<and> resourceFromRequest cfg = None)
              \<and> nullish (processPriceToAtomicAmountFn cfg) processPriceToAtomicAmount
                   (price cfg) (rc_network cfg) = Inl (ce_message ce)
              \<and> ce_name ce = ''PaymentMiddlewareConfigError'')"
proof -
  have ce: "ce = new_PaymentMiddlewareConfigError m \<longleftrightarrow>
              ce_message ce = m \<and> ce_name ce = ''PaymentMiddlewareConfigError''" for m
    by (cases ce) (auto simp add: new_PaymentMiddlewareConfigError_def)
  show ?thesis
    unfolding new_PaymentMiddleware_ConfigError resource_of_config_None [OF assms] ce
    by auto
qed

theorem construction_fails_with_ConfigError_iff_witness:
  "new_PaymentMiddleware stub_useFacilitator stub_processPriceToAtomicAmount stub_getAddress
     (unit_config\<lparr>config := None\<rparr>)
     = Inl (ConfigError (new_PaymentMiddlewareConfigError
              ''Either config.resource or resourceFromRequest must be provided''))
   \<and> new_PaymentMiddleware stub_useFacilitator stub_processPriceToAtomicAmount stub_getAddress
     (unit_config\<lparr>price := ''bogus''\<rparr>)
     = Inl (ConfigError (new_PaymentMiddlewareConfigError ''Invalid price''))"
proof -
  let ?missing = "unit_config\<lparr>config := None\<rparr>"
  let ?bogus = "unit_config\<lparr>price := ''bogus''\<rparr>"
  have typed: "config_field cfg_resource ?missing \<noteq> Some []"
              "config_field cfg_resource ?bogus \<noteq> Some []"
    by (simp_all add: config_field_def unit_config_def)
  have absent: "config_field cfg_resource ?missing = None \<and> resourceFromRequest ?missing = None"
    by (simp add: config_field_def unit_config_def)
  have present: "\<not> (config_field cfg_resource ?bogus = None \<and> resourceFromRequest ?bogus = None)"
    by (simp add: config_field_def unit_config_def)
  have conversion: "nullish (processPriceToAtomicAmountFn ?bogus) stub_processPriceToAtomicAmount
                      (price ?bogus) (rc_network ?bogus) = Inl ''Invalid price''"
    by (simp add: unit_config_def stub_processPriceToAtomicAmount_def)
  from construction_fails_with_ConfigError_iff [OF typed(1), of stub_useFacilitator
         stub_processPriceToAtomicAmount stub_getAddress
         "new_PaymentMiddlewareConfigError
            ''Either config.resource or resourceFromRequest must be provided''"] absent
  have 1: "new_PaymentMiddleware stub_useFacilitator stub_processPriceToAtomicAmount stub_getAddress
             ?missing
           = Inl (ConfigError (new_PaymentMiddlewareConfigError
                    ''Either config.resource or resourceFromRequest must be provided''))"
    by (simp add: new_PaymentMiddlewareConfigError_def)
  from construction_fails_with_ConfigError_iff [OF typed(2), of stub_useFacilitator
         stub_processPriceToAtomicAmount stub_getAddress
         "new_PaymentMiddlewareConfigError ''Invalid price''"] present conversion
  have 2: "new_PaymentMiddleware stub_useFacilitator stub_processPriceToAtomicAmount stub_getAddress
             ?bogus
           = Inl (ConfigError (new_PaymentMiddlewareConfigError ''Invalid price''))"
    by (simp add: new_PaymentMiddlewareConfigError_def)
  from 1 2 show ?thesis by simp
qed

text \<open>
  C9. For every middleware that construction returns, the template has the scheme
  \<^verbatim>\<open>exact\<close>, the network of the configuration, the atomic amount that the converter
  returned for the configured price and network, the addresses that \<^verbatim>\<open>getAddress\<close>
  returned for \<^verbatim>\<open>payTo\<close> and for the converter's asset, the asset's signing metadata
  as \<^verbatim>\<open>extra\<close>, and for \<^verbatim>\<open>description\<close>, \<^verbatim>\<open>mimeType\<close>, \<^verbatim>\<open>maxTimeoutSeconds\<close> and
  \<^verbatim>\<open>outputSchema\<close> the configured value, or the empty string,
  \<^verbatim>\<open>application/json\<close>, 300 and nothing when the member is absent.
\<close>

theorem constructed_template:
  assumes "new_PaymentMiddleware useFacilitator processPriceToAtomicAmount getAddress cfg = Inr this"
  shows "\<exists>amount. nullish (processPriceToAtomicAmountFn cfg) processPriceToAtomicAmount
                     (price cfg) (rc_network cfg) = Inr amount
           \<and> scheme (mw_paymentReq this) = ''exact''
           \<and> network (mw_paymentReq this) = rc_network cfg
           \<and> maxAmountRequired (mw_paymentReq this) = aa_maxAmountRequired amount
           \<and> getAddress (c_payTo cfg) = Inr (payTo (mw_paymentReq this))
           \<and> getAddress (address (aa_asset amount)) = Inr (asset (mw_paymentReq this))
           \<and> extra (mw_paymentReq this) = eip712 (aa_asset amount)
           \<and> description (mw_paymentReq this) =
                (case config_field cfg_description cfg of None \<Rightarrow> '''' | Some d \<Rightarrow> d)
           \<and> mimeType (mw_paymentReq this) =
                (case config_field cfg_mimeType cfg of None \<Rightarrow> ''application/json'' | Some m \<Rightarrow> m)
           \<and> maxTimeoutSeconds (mw_paymentReq this) =
                (case config_field cfg_maxTimeoutSeconds cfg of None \<Rightarrow> 300 | Some t \<Rightarrow> t)
           \<and> outputSchema (mw_paymentReq this) = config_field cfg_outputSchema cfg"
proof -
  have nullish_case: "nullish v d = (case v of None \<Rightarrow> d | Some w \<Rightarrow> w)" for v :: "'x option" and d
    by (cases v) simp_all
  from assms show ?thesis
    by (auto simp add: new_PaymentMiddleware_def Let_def nullish_case [symmetric]
          split: option.splits sum.splits)
qed

theorem constructed_template_witness:
  "\<exists>this. new_PaymentMiddleware stub_useFacilitator stub_processPriceToAtomicAmount stub_getAddress
             unit_config = Inr this
     \<and> mw_paymentReq this =
         \<lparr>scheme = ''exact'', network = ''base'', maxAmountRequired = ''10000'',
          description = '''', mimeType = ''application/json'',
          payTo = ''0xBAc675C310721717Cd4A37F6cbeA1F081b1C2a07'',
          maxTimeoutSeconds = 300,
          asset = ''0x833589fCD6eDb6E08f4c7C32D4f71b54bdA02913'',
          outputSchema = None,
          extra = JObject [(''name'', JString ''USD Coin''), (''version'', JString ''2'')]\<rparr>"
proof -
  obtain this where built:
    "new_PaymentMiddleware stub_useFacilitator stub_processPriceToAtomicAmount stub_getAddress
       unit_config = Inr this"
    by (simp add: new_PaymentMiddleware_def unit_config_def resource_of_config_def
          stub_processPriceToAtomicAmount_def stub_getAddress_def)
  from constructed_template [OF built]
  have "mw_paymentReq this =
         \<lparr>scheme = ''exact'', network = ''base'', maxAmountRequired = ''10000'',
          description = '''', mimeType = ''application/json'',
          payTo = ''0xBAc675C310721717Cd4A37F6cbeA1F081b1C2a07'',
          maxTimeoutSeconds = 300,
          asset = ''0x833589fCD6eDb6E08f4c7C32D4f71b54bdA02913'',
          outputSchema = None,
          extra = JObject [(''name'', JString ''USD Coin''), (''version'', JString ''2'')]\<rparr>"
    by (cases "mw_paymentReq this")
       (auto simp add: unit_config_def config_field_def stub_processPriceToAtomicAmount_def
          stub_getAddress_def)
  with built show ?thesis by blast
qed


text \<open>An empty \<^verbatim>\<open>config.resource\<close> is falsy and counts as absent, which is why the
  theorem above asks for a resource that is not the empty string.\<close>

lemma empty_resource_counts_as_absent:
  "new_PaymentMiddleware stub_useFacilitator stub_processPriceToAtomicAmount stub_getAddress
     (unit_config\<lparr>config := Some \<lparr>cfg_resource = Some [], cfg_description = None,
                     cfg_mimeType = None, cfg_maxTimeoutSeconds = None,
                     cfg_outputSchema = None, cfg_customPaywallHtml = None\<rparr>\<rparr>)
     = Inl (ConfigError (new_PaymentMiddlewareConfigError
              ''Either config.resource or resourceFromRequest must be provided''))"
  by (simp add: new_PaymentMiddleware_def resource_of_config_def unit_config_def)

subsection \<open>paymentRequirements\<close>

lemma assign_from_empty_template:
  "assign_from [] (object_of_template t) = object_of_template t"
  by (simp add: object_of_template_def)

lemma set_resource_of_template:
  "set_property (object_of_template t) ''resource'' v = object_of_template t @ [(''resource'', v)]"
  by (simp add: object_of_template_def)

lemma paymentRequirements_in_store_result:
  assumes "paymentReq < length st"
  shows "paymentRequirements_in_store st paymentReq r =
           (st @ [assign_from (assign_from [] (st ! paymentReq)) [(''resource'', JString r)],
                  [(''resource'', JString r)]], length st)"
  using assms
  by (simp add: paymentRequirements_in_store_def Let_def nth_append list_update_append)

text \<open>
  C10. For every middleware and every request, \<^verbatim>\<open>paymentRequirements\<close> returns a list
  of exactly one requirement; its \<^verbatim>\<open>resource\<close> is the one resolved for the request and
  every other member is that of the template. On a store that holds the template's
  object, the call leaves every object that was there as it was, the template among
  them, and the object it returns has the members of the template and \<^verbatim>\<open>resource\<close>.
\<close>

theorem paymentRequirements_only_adds_resource:
  assumes "paymentReq < length st"
      and "st ! paymentReq = object_of_template (mw_paymentReq this)"
  shows "\<exists>r. paymentRequirements this request = [r]
           \<and> resource r = resolve_resource this request
           \<and> scheme r = scheme (mw_paymentReq this)
           \<and> network r = network (mw_paymentReq this)
           \<and> maxAmountRequired r = maxAmountRequired (mw_paymentReq this)
           \<and> description r = description (mw_paymentReq this)
           \<and> mimeType r = mimeType (mw_paymentReq this)
           \<and> payTo r = payTo (mw_paymentReq this)
           \<and> maxTimeoutSeconds r = maxTimeoutSeconds (mw_paymentReq this)
           \<and> asset r = asset (mw_paymentReq this)
           \<and> outputSchema r = outputSchema (mw_paymentReq this)
           \<and> extra r = extra (mw_paymentReq this)
           \<and> fst (paymentRequirements_in_store st paymentReq (resolve_resource this request))
                 ! snd (paymentRequirements_in_store st paymentReq (resolve_resource this request))
               = object_of_requirements r
           \<and> take (length st)
                 (fst (paymentRequirements_in_store st paymentReq (resolve_resource this request)))
               = st"
proof -
  let ?r = "payment_template.extend (mw_paymentReq this)
              (PaymentRequirements.fields (resolve_resource this request))"
  have fields: "resource ?r = resolve_resource this request"
    "scheme ?r = scheme (mw_paymentReq this)"
    "network ?r = network (mw_paymentReq this)"
    "maxAmountRequired ?r = maxAmountRequired (mw_paymentReq this)"
    "description ?r = description (mw_paymentReq this)"
    "mimeType ?r = mimeType (mw_paymentReq this)"
    "payTo ?r = payTo (mw_paymentReq this)"
    "maxTimeoutSeconds ?r = maxTimeoutSeconds (mw_paymentReq this)"
    "asset ?r = asset (mw_paymentReq this)"
    "outputSchema ?r = outputSchema (mw_paymentReq this)"
    "extra ?r = extra (mw_paymentReq this)"
    by (simp_all add: payment_template.extend_def PaymentRequirements.fields_def)
  have obj: "object_of_requirements ?r =
               object_of_template (mw_paymentReq this)
                 @ [(''resource'', JString (resolve_resource this request))]"
    by (simp add: object_of_requirements_def object_of_template_def fields)
  have returned: "fst (paymentRequirements_in_store st paymentReq (resolve_resource this request))
                 ! snd (paymentRequirements_in_store st paymentReq (resolve_resource this request))
               = object_of_requirements ?r"
    by (simp add: paymentRequirements_in_store_result [OF assms(1)] assms(2)
          assign_from_empty_template set_resource_of_template obj)
  have frame: "take (length st)
                 (fst (paymentRequirements_in_store st paymentReq (resolve_resource this request)))
               = st"
    by (simp add: paymentRequirements_in_store_result [OF assms(1)])
  have "paymentRequirements this request = [?r]"
    by (simp add: paymentRequirements_def)
  with fields returned frame show ?thesis by blast
qed

theorem paymentRequirements_only_adds_resource_witness:
  "paymentRequirements hono_weather hono_paid = [weather_requirement]
   \<and> paymentRequirements_in_store [object_of_template (mw_paymentReq hono_weather)] 0
       ''https://api.example.com/resource''
     = ([object_of_template (mw_paymentReq hono_weather),
         object_of_requirements weather_requirement,
         [(''resource'', JString ''https://api.example.com/resource'')]], 1)"
proof -
  let ?st = "[object_of_template (mw_paymentReq hono_weather)]"
  have inside: "0 < length ?st" by simp
  have held: "?st ! 0 = object_of_template (mw_paymentReq hono_weather)" by simp
  have resolved: "resolve_resource hono_weather hono_paid = ''https://api.example.com/resource''"
    by (simp add: resolve_resource_def hono_weather_def weather_middleware_def)
  have template: "mw_paymentReq hono_weather = payment_template.truncate weather_requirement"
    by (simp add: hono_weather_def weather_middleware_def)
  from paymentRequirements_only_adds_resource [OF inside held, of hono_paid]
  obtain r where r: "paymentRequirements hono_weather hono_paid = [r]"
    "resource r = ''https://api.example.com/resource''"
    "scheme r = scheme (mw_paymentReq hono_weather)"
    "network r = network (mw_paymentReq hono_weather)"
    "maxAmountRequired r = maxAmountRequired (mw_paymentReq hono_weather)"
    "description r = description (mw_paymentReq hono_weather)"
    "mimeType r = mimeType (mw_paymentReq hono_weather)"
    "payTo r = payTo (mw_paymentReq hono_weather)"
    "maxTimeoutSeconds r = maxTimeoutSeconds (mw_paymentReq hono_weather)"
    "asset r = asset (mw_paymentReq hono_weather)"
    "outputSchema r = outputSchema (mw_paymentReq hono_weather)"
    "extra r = extra (mw_paymentReq hono_weather)"
    "fst (paymentRequirements_in_store ?st 0 ''https://api.example.com/resource'')
       ! snd (paymentRequirements_in_store ?st 0 ''https://api.example.com/resource'')
     = object_of_requirements r"
    unfolding resolved by blast
  have "r = weather_requirement"
    using r(2-12) unfolding template
    by (cases r) (simp add: weather_requirement_def payment_template.truncate_def)
  with r(1,13) show ?thesis
    by (simp add: paymentRequirements_in_store_result [OF inside])
qed


section \<open>Facts about the adapters\<close>

lemma acquirePayment_only_verifies:
  "ev \<in> set (fst (acquirePayment fm mw request reqs)) \<Longrightarrow> is_verify ev"
  by (auto simp add: acquirePayment_def split: sum.splits option.splits if_splits)

lemma acquirePayment_never_settles:
  "filter is_settle (fst (acquirePayment fm mw request reqs)) = []"
  by (simp add: acquirePayment_def split: sum.splits option.splits)

lemma acquirePayment_X402_built:
  "snd (acquirePayment fm mw request reqs) = Inl (X402 x) \<Longrightarrow> \<exists>e p. x = new_X402Error e reqs p"
  by (auto simp add: acquirePayment_def split: sum.splits option.splits if_splits)

lemma acquirePayment_requirements:
  "snd (acquirePayment fm mw request reqs) = Inr (Some ap) \<Longrightarrow> requirements ap = reqs"
  by (auto simp add: acquirePayment_def new_AcquiredPayment_def
        split: sum.splits option.splits if_splits)

lemma settle_payment_X402_built:
  "snd (settle_payment ap) = Inl (X402 x) \<Longrightarrow> \<exists>e p. x = new_X402Error e (requirements ap) p"
  by (auto simp add: settle_payment_def split: sum.splits if_splits)

lemma settle_payment_never_Other:
  "snd (settle_payment ap) \<noteq> Inl (Other thrown)"
  by (auto simp add: settle_payment_def split: sum.splits if_splits)

subsection \<open>The JSON bodies that the handlers write\<close>

lemma express_catch_json:
  "ResJson obj \<in> set (fst (express_catch tj res e)) \<Longrightarrow> \<exists>x. e = X402 x \<and> obj = toJSON tj x"
  by (auto simp add: express_catch_def split: failure.splits if_splits)

lemma hono_catch_returned:
  "hono_catch tj c e = HonoReturned c'' \<Longrightarrow>
     \<exists>x. e = X402 x \<and> status (hono_res c'') = 402
          \<and> body (hono_res c'') = JSON_stringify (toJSON tj x)"
  by (auto simp add: hono_catch_def JSON_stringify_X402Error_def Let_def split: failure.splits)

lemma next_catch_returned:
  "next_catch tj e = Inr (NextResponse_new r) \<Longrightarrow>
     \<exists>x. e = X402 x \<and> status r = 402 \<and> body r = JSON_stringify (toJSON tj x)"
  by (auto simp add: next_catch_def JSON_stringify_X402Error_def split: failure.splits)

lemma express_json_bodies:
  assumes "ResJson obj \<in> set (fst (express_paymentMiddleware fm tj sh gp match req res next))"
  shows "\<exists>mw e p. match (express_path req) (toUpperCase (express_method req)) = Some mw
           \<and> obj = toJSON tj (new_X402Error e (paymentRequirements mw req) p)"
proof (cases "match (express_path req) (toUpperCase (express_method req))")
  case None
  then have "fst (express_paymentMiddleware fm tj sh gp match req res next) = [DownstreamCalled]"
    by (simp add: express_paymentMiddleware_def split: express_downstream.splits)
  with assms show ?thesis by simp
next
  case (Some mw)
  let ?reqs = "paymentRequirements mw req"
  let ?acq = "acquirePayment fm mw req ?reqs"
  let ?ev = "fst (express_paymentMiddleware fm tj sh gp match req res next)"
  have no_json: "ResJson obj \<notin> set (fst ?acq)"
    using acquirePayment_only_verifies [of "ResJson obj" fm mw req ?reqs] by auto
  show ?thesis
  proof (cases "snd ?acq")
    case (Inl e)
    with Some have ev: "?ev = fst ?acq @ fst (express_catch tj res e) @ [ResEndRestored]"
      by (simp add: express_paymentMiddleware_def Let_def)
    from assms have "ResJson obj \<in> set (fst ?acq @ fst (express_catch tj res e) @ [ResEndRestored])"
      unfolding ev .
    with no_json have "ResJson obj \<in> set (fst (express_catch tj res e))"
      by simp
    then obtain x where x: "e = X402 x" "obj = toJSON tj x"
      using express_catch_json by blast
    with Inl obtain e' p where "x = new_X402Error e' ?reqs p"
      using acquirePayment_X402_built [of fm mw req ?reqs x] by auto
    with x Some show ?thesis by blast
  next
    case (Inr acquired)
    show ?thesis
    proof (cases acquired)
      case None
      with Some Inr have ev: "?ev = fst ?acq @ [ResStatus 402, ResSend (paywall_html_or gp mw req ?reqs), ResEndRestored]"
        by (simp add: express_paymentMiddleware_def Let_def)
      from assms have "ResJson obj \<in> set (fst ?acq @ [ResStatus 402, ResSend (paywall_html_or gp mw req ?reqs), ResEndRestored])"
        unfolding ev .
      with no_json have False by simp
      then show ?thesis ..
    next
      case payment: (Some payment)
      have reqs: "requirements payment = ?reqs"
        using acquirePayment_requirements [of fm mw req ?reqs payment] Inr payment by simp
      show ?thesis
      proof (cases "next req res")
        case (NextThrew thrown)
        with Some Inr payment
        have ev: "?ev = fst ?acq @ [ResEndPatched, DownstreamCalled, ResEndRestored]"
          by (simp add: express_paymentMiddleware_def Let_def)
        from assms
        have "ResJson obj \<in> set (fst ?acq @ [ResEndPatched, DownstreamCalled, ResEndRestored])"
          unfolding ev .
        with no_json have False by simp
        then show ?thesis ..
      next
        case NeverEnded
        with Some Inr payment have ev: "?ev = fst ?acq @ [ResEndPatched, DownstreamCalled]"
          by (simp add: express_paymentMiddleware_def Let_def)
        from assms have "ResJson obj \<in> set (fst ?acq @ [ResEndPatched, DownstreamCalled])"
          unfolding ev .
        with no_json have False by simp
        then show ?thesis ..
      next
        case (Ended args res')
        show ?thesis
        proof (cases "statusCode res' \<ge> 400")
          case True
          with Some Inr payment Ended have ev: "?ev = fst ?acq @ [ResEndPatched, DownstreamCalled, ResEndRestored, ResEnd args]"
            by (simp add: express_paymentMiddleware_def Let_def)
          from assms have "ResJson obj \<in> set (fst ?acq @ [ResEndPatched, DownstreamCalled, ResEndRestored, ResEnd args])"
            unfolding ev .
          with no_json have False by simp
          then show ?thesis ..
        next
          case False
          show ?thesis
          proof (cases "snd (settle_payment payment)")
            case failed: (Inl e)
            with Some Inr payment Ended False
            have ev: "?ev = fst ?acq @ [ResEndPatched, DownstreamCalled]
                          @ fst (settle_payment payment)
                          @ fst (express_catch tj res' e) @ [ResEndRestored, ResEnd args]"
              by (simp add: express_paymentMiddleware_def Let_def)
            from assms have "ResJson obj \<in> set (fst ?acq @ [ResEndPatched, DownstreamCalled]
                          @ fst (settle_payment payment)
                          @ fst (express_catch tj res' e) @ [ResEndRestored, ResEnd args])"
              unfolding ev .
            with no_json have "ResJson obj \<in> set (fst (express_catch tj res' e))"
              by (simp add: settle_payment_events)
            then obtain x where x: "e = X402 x" "obj = toJSON tj x"
              using express_catch_json by blast
            with failed reqs obtain e' p where "x = new_X402Error e' ?reqs p"
              using settle_payment_X402_built [of payment x] by auto
            with x Some show ?thesis by blast
          next
            case settled: (Inr settlement)
            with Some Inr payment Ended False
            have ev: "?ev = fst ?acq @ [ResEndPatched, DownstreamCalled]
                          @ fst (settle_payment payment)
                          @ [ResSetHeader ''X-PAYMENT-RESPONSE'' (sh settlement),
                             ResEndRestored, ResEnd args]"
              by (simp add: express_paymentMiddleware_def Let_def)
            from assms have "ResJson obj \<in> set (fst ?acq @ [ResEndPatched, DownstreamCalled]
                          @ fst (settle_payment payment)
                          @ [ResSetHeader ''X-PAYMENT-RESPONSE'' (sh settlement),
                             ResEndRestored, ResEnd args])"
              unfolding ev .
            with no_json have False by (simp add: settle_payment_events)
            then show ?thesis ..
          qed
        qed
      qed
    qed
  qed
qed

lemma next_json_bodies:
  assumes "snd (next_paymentMiddleware fm tj sh gp match req) = Inr (NextResponse_new r)"
      and "body r = JSON_stringify obj"
  shows "status r = 402
         \<and> (\<exists>mw e p. match (next_pathname req) (toUpperCase (next_method req)) = Some mw
               \<and> obj = toJSON tj (new_X402Error e (paymentRequirements mw req) p))"
proof (cases "match (next_pathname req) (toUpperCase (next_method req))")
  case None
  then have "snd (next_paymentMiddleware fm tj sh gp match req) = Inr (NextResponse_next Map.empty)"
    by (simp add: next_paymentMiddleware_def)
  with assms(1) show ?thesis by simp
next
  case (Some mw)
  let ?reqs = "paymentRequirements mw req"
  let ?acq = "acquirePayment fm mw req ?reqs"
  let ?out = "snd (next_paymentMiddleware fm tj sh gp match req)"
  show ?thesis
  proof (cases "snd ?acq")
    case (Inl e)
    with Some have "?out = next_catch tj e"
      by (simp add: next_paymentMiddleware_def Let_def)
    with assms(1) have "next_catch tj e = Inr (NextResponse_new r)" by simp
    then obtain x where x: "e = X402 x" "status r = 402" "body r = JSON_stringify (toJSON tj x)"
      using next_catch_returned by blast
    with Inl obtain e' p where "x = new_X402Error e' ?reqs p"
      using acquirePayment_X402_built [of fm mw req ?reqs x] by auto
    with x assms(2) Some show ?thesis by auto
  next
    case (Inr acquired)
    show ?thesis
    proof (cases acquired)
      case None
      with Some Inr have "?out = Inr (next_paywall (paywall_html_nullish gp mw req ?reqs))"
        by (simp add: next_paymentMiddleware_def Let_def)
      with assms(1) have "r = \<lparr>status = 402, headers = [''Content-Type'' \<mapsto> ''text/html''],
                               body = Text (paywall_html_nullish gp mw req ?reqs)\<rparr>"
        by (simp add: next_paywall_def)
      then have "body r = Text (paywall_html_nullish gp mw req ?reqs)" by simp
      with assms(2) have False by simp
      then show ?thesis ..
    next
      case payment: (Some payment)
      have reqs: "requirements payment = ?reqs"
        using acquirePayment_requirements [of fm mw req ?reqs payment] Inr payment by simp
      show ?thesis
      proof (cases "snd (settle_payment payment)")
        case failed: (Inl e)
        with Some Inr payment have "?out = next_catch tj e"
          by (simp add: next_paymentMiddleware_def Let_def)
        with assms(1) have "next_catch tj e = Inr (NextResponse_new r)" by simp
        then obtain x where x: "e = X402 x" "status r = 402" "body r = JSON_stringify (toJSON tj x)"
          using next_catch_returned by blast
        with failed reqs obtain e' p where "x = new_X402Error e' ?reqs p"
          using settle_payment_X402_built [of payment x] by auto
        with x assms(2) Some show ?thesis by auto
      next
        case settled: (Inr settlement)
        with Some Inr payment
        have "?out = Inr (NextResponse_next [''X-PAYMENT-RESPONSE'' \<mapsto> sh settlement])"
          by (simp add: next_paymentMiddleware_def Let_def)
        with assms(1) show ?thesis by simp
      qed
    qed
  qed
qed


lemma hono_written_responses:
  assumes "snd (hono_paymentMiddleware fm tj sh gp match c next) = HonoReturned c''"
  shows "(\<exists>c'. next c = Inr c' \<and> status (hono_res c'') = status (hono_res c')
               \<and> body (hono_res c'') = body (hono_res c'))
       \<or> (\<exists>mw e p. match (hono_path (hono_req c)) (toUpperCase (hono_method (hono_req c))) = Some mw
               \<and> status (hono_res c'') = 402
               \<and> body (hono_res c'') =
                   JSON_stringify (toJSON tj (new_X402Error e (paymentRequirements mw c) p)))"
proof (cases "match (hono_path (hono_req c)) (toUpperCase (hono_method (hono_req c)))")
  case None
  then have "snd (hono_paymentMiddleware fm tj sh gp match c next) = HonoReturnedNext (next c)"
    by (simp add: hono_paymentMiddleware_def)
  with assms show ?thesis by simp
next
  case (Some mw)
  let ?reqs = "paymentRequirements mw c"
  let ?acq = "acquirePayment fm mw c ?reqs"
  let ?out = "snd (hono_paymentMiddleware fm tj sh gp match c next)"
  show ?thesis
  proof (cases "snd ?acq")
    case (Inl e)
    with Some have "?out = hono_catch tj c e"
      by (simp add: hono_paymentMiddleware_def Let_def)
    with assms have "hono_catch tj c e = HonoReturned c''" by simp
    then obtain x where x: "e = X402 x" "status (hono_res c'') = 402"
        "body (hono_res c'') = JSON_stringify (toJSON tj x)"
      using hono_catch_returned by blast
    with Inl obtain e' p where "x = new_X402Error e' ?reqs p"
      using acquirePayment_X402_built [of fm mw c ?reqs x] by auto
    with x Some show ?thesis by auto
  next
    case (Inr acquired)
    show ?thesis
    proof (cases acquired)
      case None
      with Some Inr have "?out = HonoReturnedHtml (paywall_html_nullish gp mw c ?reqs) 402"
        by (simp add: hono_paymentMiddleware_def Let_def)
      with assms show ?thesis by simp
    next
      case payment: (Some payment)
      have reqs: "requirements payment = ?reqs"
        using acquirePayment_requirements [of fm mw c ?reqs payment] Inr payment by simp
      show ?thesis
      proof (cases "next c")
        case thrown: (Inl thrown)
        with Some Inr payment have "?out = HonoThrew thrown"
          by (simp add: hono_paymentMiddleware_def Let_def hono_catch_def)
        with assms show ?thesis by simp
      next
        case answered: (Inr c')
        show ?thesis
        proof (cases "status (hono_res c') \<ge> 400")
          case True
          with Some Inr payment answered have "?out = HonoReturned c'"
            by (simp add: hono_paymentMiddleware_def Let_def)
          with assms have "c'' = c'" by simp
          with answered show ?thesis by simp
        next
          case False
          show ?thesis
          proof (cases "snd (settle_payment payment)")
            case failed: (Inl e)
            with Some Inr payment answered False have "?out = hono_catch tj c' e"
              by (simp add: hono_paymentMiddleware_def Let_def)
            with assms have "hono_catch tj c' e = HonoReturned c''" by simp
            then obtain x where x: "e = X402 x" "status (hono_res c'') = 402"
                "body (hono_res c'') = JSON_stringify (toJSON tj x)"
              using hono_catch_returned by blast
            with failed reqs obtain e' p where "x = new_X402Error e' ?reqs p"
              using settle_payment_X402_built [of payment x] by auto
            with x Some show ?thesis by auto
          next
            case settled: (Inr settlement)
            with Some Inr payment answered False
            have "?out = HonoReturned (c'\<lparr>hono_res := (hono_res c')
                           \<lparr>headers := (headers (hono_res c'))
                              (''X-PAYMENT-RESPONSE'' \<mapsto> sh settlement)\<rparr>\<rparr>)"
              by (simp add: hono_paymentMiddleware_def Let_def)
            with assms have "c'' = c'\<lparr>hono_res := (hono_res c')
                           \<lparr>headers := (headers (hono_res c'))
                              (''X-PAYMENT-RESPONSE'' \<mapsto> sh settlement)\<rparr>\<rparr>"
              by simp
            with answered show ?thesis by simp
          qed
        qed
      qed
    qed
  qed
qed

text \<open>
  The serialized form of every error that the constructor builds: an object of exactly
  the four members \<^verbatim>\<open>x402Version\<close>, \<^verbatim>\<open>error\<close>, \<^verbatim>\<open>accepts\<close> and \<^verbatim>\<open>payer\<close>. The version
  is 1, the error is the string the error was built from or the message of the
  \<^verbatim>\<open>Error\<close> object, \<^verbatim>\<open>accepts\<close> is the requirement list as \<^verbatim>\<open>toJsonSafe\<close> returns it,
  and the payer is the payer as a string, or \<^verbatim>\<open>undefined\<close> when there is none.
\<close>

lemma toJSON_of_constructed_error:
  "toJSON toJsonSafe (new_X402Error (AString s) reqs pyr) =
     [(''x402Version'', JNumber 1), (''error'', JString s),
      (''accepts'', toJsonSafe reqs),
      (''payer'', (case pyr of None \<Rightarrow> JUndefined | Some p \<Rightarrow> JString p))]"
  "toJSON toJsonSafe (new_X402Error (AnError nm msg) reqs pyr) =
     [(''x402Version'', JNumber 1), (''error'', JString msg),
      (''accepts'', toJsonSafe reqs),
      (''payer'', (case pyr of None \<Rightarrow> JUndefined | Some p \<Rightarrow> JString p))]"
  "map fst (toJSON toJsonSafe (new_X402Error err reqs pyr)) =
     [''x402Version'', ''error'', ''accepts'', ''payer'']"
  by (cases pyr; simp add: toJSON_def new_X402Error_fields)+

lemma toJSON_with_payer:
  "toJSON toJsonSafe (new_X402Error (AString ''Payment verification failed'') [] (Some ''0xdef'')) =
     [(''x402Version'', JNumber 1), (''error'', JString ''Payment verification failed''),
      (''accepts'', toJsonSafe []), (''payer'', JString ''0xdef'')]"
  by (simp add: toJSON_def new_X402Error_fields)

subsection \<open>The worked requests through the handlers\<close>

lemma toUpperCase_GET: "toUpperCase ''GET'' = ''GET''"
  by (simp add: toUpperCase_def toUpperCase_char_def)

lemma weather_paymentRequirements:
  "paymentRequirements (weather_middleware pfr crp) request = [weather_requirement]"
  by (simp add: paymentRequirements_def weather_middleware_def resolve_resource_def
        weather_requirement_def payment_template.truncate_def payment_template.extend_def
        PaymentRequirements.fields_def)

lemma weather_acquire_unpaid:
  assumes "pfr request = Inr None" and "\<not> crp request"
  shows "acquirePayment fm (weather_middleware pfr crp) request reqs =
           ([], Inl (X402 (new_X402Error (AString ''X-PAYMENT header is required'') reqs None)))"
  using assms by (simp add: acquirePayment_def weather_middleware_def)

lemma weather_acquire_paid:
  assumes "pfr request = Inr (Some validPayment)"
  shows "acquirePayment stub_findMatchingPaymentRequirements (weather_middleware pfr crp) request
           [weather_requirement] =
           ([VerifyCalled validPayment weather_requirement], Inr (Some (test_payment stub_settle)))"
  using assms
  by (simp add: acquirePayment_def weather_middleware_def weather_requirement_matches
        stub_verify_def test_payment_def)

lemma test_payment_fields:
  "payload (test_payment s) = validPayment"
  "selected (test_payment s) = weather_requirement"
  "requirements (test_payment s) = [weather_requirement]"
  "ap_settle (test_payment s) = s"
  by (simp_all add: test_payment_def new_AcquiredPayment_def)

lemma settle_test_payment:
  "settle_payment (test_payment stub_settle) =
     ([SettleCalled validPayment weather_requirement],
      Inr \<lparr>st_success = True, st_transaction = ''0x123'', st_network = ''base-sepolia'',
           st_payer = None\<rparr>)"
  by (simp add: settle_payment_def test_payment_fields stub_settle_def)

lemma express_extraction:
  "express_paymentFromRequest stub_decodePayment express_paid = Inr (Some validPayment)"
  "express_paymentFromRequest stub_decodePayment express_unpaid = Inr None"
  "\<not> express_canRenderPaywall express_unpaid"
  by (simp_all add: express_paymentFromRequest_def express_canRenderPaywall_def
        looksLikeBrowser_def paymentFromHeader_def express_paid_def express_unpaid_def
        paid_header_X_Payment json_header_lookups stub_decodePayment_def)

lemma next_extraction:
  "next_paymentFromRequest stub_decodePayment next_paid = Inr (Some validPayment)"
  "next_paymentFromRequest stub_decodePayment next_unpaid = Inr None"
  "\<not> next_canRenderPaywall next_unpaid"
  by (simp_all add: next_paymentFromRequest_def next_canRenderPaywall_def
        looksLikeBrowser_def paymentFromHeader_def next_paid_def next_unpaid_def
        paid_header_X_Payment json_header_lookups stub_decodePayment_def)

lemma hono_header_extraction:
  "hono_paymentFromRequest stub_decodePayment hono_paid = Inr (Some validPayment)"
  "hono_paymentFromRequest stub_decodePayment hono_unpaid = Inr None"
  using hono_extraction by (simp_all add: hono_weather_def weather_middleware_def)

lemma weather_routes:
  "weather_match mw (express_path express_unpaid) (toUpperCase (express_method express_unpaid)) = Some mw"
  "weather_match mw (express_path express_paid) (toUpperCase (express_method express_paid)) = Some mw"
  "weather_match mw (next_pathname next_unpaid) (toUpperCase (next_method next_unpaid)) = Some mw"
  "weather_match mw (next_pathname next_paid) (toUpperCase (next_method next_paid)) = Some mw"
  "weather_match mw (hono_path (hono_req hono_unpaid)) (toUpperCase (hono_method (hono_req hono_unpaid))) = Some mw"
  "weather_match mw (hono_path (hono_req hono_paid)) (toUpperCase (hono_method (hono_req hono_paid))) = Some mw"
  by (simp_all add: weather_match_def express_unpaid_def express_paid_def next_unpaid_def
        next_paid_def hono_unpaid_def hono_paid_def toUpperCase_GET)

lemma express_unpaid_run:
  "fst (express_paymentMiddleware stub_findMatchingPaymentRequirements stub_toJsonSafe
          stub_settleResponseHeader stub_getPaywallHtml (weather_match express_weather)
          express_unpaid express_fresh_res express_failing_next) =
     [ResStatus 402,
      ResJson (toJSON stub_toJsonSafe
                 (new_X402Error (AString ''X-PAYMENT header is required'')
                    [weather_requirement] None)),
      ResEndRestored]"
  by (simp add: express_paymentMiddleware_def weather_routes express_weather_def
        weather_paymentRequirements weather_acquire_unpaid express_extraction
        express_catch_def express_fresh_res_def)

lemma next_unpaid_run:
  "snd (next_paymentMiddleware stub_findMatchingPaymentRequirements stub_toJsonSafe
          stub_settleResponseHeader stub_getPaywallHtml (weather_match next_weather)
          next_unpaid) =
     Inr (NextResponse_new
            \<lparr>status = 402, headers = [''Content-Type'' \<mapsto> ''application/json''],
             body = JSON_stringify (toJSON stub_toJsonSafe
                      (new_X402Error (AString ''X-PAYMENT header is required'')
                         [weather_requirement] None))\<rparr>)"
  by (simp add: next_paymentMiddleware_def weather_routes next_weather_def
        weather_paymentRequirements weather_acquire_unpaid next_extraction
        next_catch_def JSON_stringify_X402Error_def)

lemma hono_unpaid_run:
  "snd (hono_paymentMiddleware stub_findMatchingPaymentRequirements stub_toJsonSafe
          stub_settleResponseHeader stub_getPaywallHtml (weather_match hono_weather)
          hono_unpaid hono_failing_next) =
     HonoReturned (hono_unpaid\<lparr>hono_res :=
        \<lparr>status = 402,
         headers = (headers (hono_res hono_unpaid))(''Content-Type'' \<mapsto> ''application/json''),
         body = JSON_stringify (toJSON stub_toJsonSafe
                  (new_X402Error (AString ''X-PAYMENT header is required'')
                     [weather_requirement] None))\<rparr>\<rparr>)"
  by (simp add: hono_paymentMiddleware_def weather_routes hono_weather_def
        weather_paymentRequirements
        weather_acquire_unpaid hono_header_extraction hono_paywall_predicate
        hono_catch_def JSON_stringify_X402Error_def)


text \<open>The request without a payment header, from a JSON client: each handler answers
  402 with the serialized error, as the test suite expects.\<close>

lemma header_required_body_serialized:
  "toJSON stub_toJsonSafe
     (new_X402Error (AString ''X-PAYMENT header is required'') [weather_requirement] None)
     = header_required_body"
  by (simp add: toJSON_def new_X402Error_fields header_required_body_def)

lemma unpaid_request_is_answered_with_the_error:
  "express_written (statusCode express_fresh_res)
     (fst (express_paymentMiddleware stub_findMatchingPaymentRequirements stub_toJsonSafe
             stub_settleResponseHeader stub_getPaywallHtml (weather_match express_weather)
             express_unpaid express_fresh_res express_failing_next))
     = Some (402, JsonBody header_required_body)"
  "snd (next_paymentMiddleware stub_findMatchingPaymentRequirements stub_toJsonSafe
          stub_settleResponseHeader stub_getPaywallHtml (weather_match next_weather)
          next_unpaid)
     = Inr (NextResponse_new
              \<lparr>status = 402, headers = [''Content-Type'' \<mapsto> ''application/json''],
               body = JSON_stringify header_required_body\<rparr>)"
  "snd (hono_paymentMiddleware stub_findMatchingPaymentRequirements stub_toJsonSafe
          stub_settleResponseHeader stub_getPaywallHtml (weather_match hono_weather)
          hono_unpaid hono_failing_next)
     = HonoReturned (hono_unpaid\<lparr>hono_res :=
         \<lparr>status = 402,
          headers = (headers (hono_res hono_unpaid))(''Content-Type'' \<mapsto> ''application/json''),
          body = JSON_stringify header_required_body\<rparr>\<rparr>)"
proof -
  have fresh: "statusCode express_fresh_res = 200"
    by (simp add: express_fresh_res_def)
  show "express_written (statusCode express_fresh_res)
     (fst (express_paymentMiddleware stub_findMatchingPaymentRequirements stub_toJsonSafe
             stub_settleResponseHeader stub_getPaywallHtml (weather_match express_weather)
             express_unpaid express_fresh_res express_failing_next))
     = Some (402, JsonBody header_required_body)"
    unfolding express_unpaid_run fresh
    by (simp add: header_required_body_serialized express_written_def this_end_def
          originalEnd_def)
qed (simp_all add: next_unpaid_run hono_unpaid_run header_required_body_serialized)

subsection \<open>Settlement and the downstream status\<close>

lemma hono_skips_settle:
  assumes "match (hono_path (hono_req c)) (toUpperCase (hono_method (hono_req c))) = Some mw"
      and "snd (acquirePayment fm mw c (paymentRequirements mw c)) = Inr (Some payment)"
      and "next c = Inr c'" and "status (hono_res c') \<ge> 400"
  shows "filter is_settle (fst (hono_paymentMiddleware fm tj sh gp match c next)) = []"
  using assms by (simp add: hono_paymentMiddleware_def Let_def acquirePayment_never_settles)

lemma express_skips_settle:
  assumes "match (express_path req) (toUpperCase (express_method req)) = Some mw"
      and "snd (acquirePayment fm mw req (paymentRequirements mw req)) = Inr (Some payment)"
      and "next req res = Ended args res'" and "statusCode res' \<ge> 400"
  shows "filter is_settle (fst (express_paymentMiddleware fm tj sh gp match req res next)) = []"
  using assms by (simp add: express_paymentMiddleware_def Let_def acquirePayment_never_settles)

lemma next_always_settles:
  assumes "match (next_pathname req) (toUpperCase (next_method req)) = Some mw"
      and "snd (acquirePayment fm mw req (paymentRequirements mw req)) = Inr (Some payment)"
  shows "fst (next_paymentMiddleware fm tj sh gp match req) =
           fst (acquirePayment fm mw req (paymentRequirements mw req))
             @ [SettleCalled (payload payment) (selected payment)]"
  using assms
  by (simp add: next_paymentMiddleware_def Let_def settle_payment_events split: sum.splits)

text \<open>The worked paid request through each handler, with a downstream handler that
  answers 500.\<close>

lemma hono_paid_run:
  "fst (hono_paymentMiddleware stub_findMatchingPaymentRequirements stub_toJsonSafe
          stub_settleResponseHeader stub_getPaywallHtml (weather_match hono_weather)
          hono_paid hono_failing_next) =
     [VerifyCalled validPayment weather_requirement, DownstreamCalled]"
  by (simp add: hono_paymentMiddleware_def weather_routes hono_weather_def
        weather_paymentRequirements weather_acquire_paid hono_header_extraction
        hono_failing_next_def)

lemma express_paid_run:
  "fst (express_paymentMiddleware stub_findMatchingPaymentRequirements stub_toJsonSafe
          stub_settleResponseHeader stub_getPaywallHtml (weather_match express_weather)
          express_paid express_fresh_res express_failing_next) =
     [VerifyCalled validPayment weather_requirement, ResEndPatched, DownstreamCalled,
      ResEndRestored, ResEnd (EndArgs [JString ''Internal Server Error''])]"
  by (simp add: express_paymentMiddleware_def weather_routes express_weather_def
        weather_paymentRequirements weather_acquire_paid express_extraction
        express_failing_next_def)

lemma next_paid_run:
  "next_paymentMiddleware stub_findMatchingPaymentRequirements stub_toJsonSafe
     stub_settleResponseHeader stub_getPaywallHtml (weather_match next_weather) next_paid =
     ([VerifyCalled validPayment weather_requirement,
       SettleCalled validPayment weather_requirement],
      Inr (NextResponse_next [''X-PAYMENT-RESPONSE'' \<mapsto> ''settled 0x123'']))"
  by (simp add: next_paymentMiddleware_def weather_routes next_weather_def
        weather_paymentRequirements weather_acquire_paid next_extraction
        settle_test_payment stub_settleResponseHeader_def)

text \<open>
  C1, as the specification states it, fails for the Next.js handler: the request below
  is to the protected route, its payment is acquired, the route handler answers 500,
  and the settler has been called, before the route handler ran.
\<close>

theorem next_settles_though_handler_fails:
  "weather_match next_weather (next_pathname next_paid) (toUpperCase (next_method next_paid))
     = Some next_weather
   \<and> snd (acquirePayment stub_findMatchingPaymentRequirements next_weather next_paid
            (paymentRequirements next_weather next_paid))
       = Inr (Some (test_payment stub_settle))
   \<and> next_request
        (next_paymentMiddleware stub_findMatchingPaymentRequirements stub_toJsonSafe
           stub_settleResponseHeader stub_getPaywallHtml (weather_match next_weather))
        next_failing_handler next_paid
       = ([VerifyCalled validPayment weather_requirement,
           SettleCalled validPayment weather_requirement,
           DownstreamCalled],
          Some (Inr \<lparr>status = 500, headers = Map.empty,
                     body = Text ''Internal Server Error''\<rparr>))
   \<and> (400::nat) \<le> 500"
proof -
  have acquired: "snd (acquirePayment stub_findMatchingPaymentRequirements next_weather next_paid
            (paymentRequirements next_weather next_paid))
       = Inr (Some (test_payment stub_settle))"
    by (simp add: next_weather_def weather_paymentRequirements weather_acquire_paid
          next_extraction)
  have cycle: "next_request
        (next_paymentMiddleware stub_findMatchingPaymentRequirements stub_toJsonSafe
           stub_settleResponseHeader stub_getPaywallHtml (weather_match next_weather))
        next_failing_handler next_paid
       = ([VerifyCalled validPayment weather_requirement,
           SettleCalled validPayment weather_requirement,
           DownstreamCalled],
          Some (Inr \<lparr>status = 500, headers = Map.empty,
                     body = Text ''Internal Server Error''\<rparr>))"
    by (simp add: next_request_def next_paid_run next_failing_handler_def)
  from acquired cycle show ?thesis by (simp add: weather_routes)
qed

text \<open>
  C1, amended. In the Hono and in the Express handler, a request to a protected route
  whose payment is acquired and whose downstream handler answers with a status of 400
  or more never reaches the settler. The Next.js handler does not call the downstream
  handler; for every request to a protected route whose payment is acquired it calls
  the settler exactly once before it returns.
\<close>

theorem settle_skipped_on_error_status:
  "(matchH (hono_path (hono_req c)) (toUpperCase (hono_method (hono_req c))) = Some mwH
      \<and> snd (acquirePayment fm mwH c (paymentRequirements mwH c)) = Inr (Some paymentH)
      \<and> nextH c = Inr c' \<and> status (hono_res c') \<ge> 400
    \<longrightarrow> filter is_settle (fst (hono_paymentMiddleware fm tj sh gpH matchH c nextH)) = [])
   \<and> (matchE (express_path reqE) (toUpperCase (express_method reqE)) = Some mwE
      \<and> snd (acquirePayment fm mwE reqE (paymentRequirements mwE reqE)) = Inr (Some paymentE)
      \<and> nextE reqE resE = Ended args resE' \<and> statusCode resE' \<ge> 400
    \<longrightarrow> filter is_settle (fst (express_paymentMiddleware fm tj sh gpE matchE reqE resE nextE)) = [])
   \<and> (matchN (next_pathname reqN) (toUpperCase (next_method reqN)) = Some mwN
      \<and> snd (acquirePayment fm mwN reqN (paymentRequirements mwN reqN)) = Inr (Some paymentN)
    \<longrightarrow> filter is_settle (fst (next_paymentMiddleware fm tj sh gpN matchN reqN))
          = [SettleCalled (payload paymentN) (selected paymentN)]
        \<and> DownstreamCalled \<notin> set (fst (next_paymentMiddleware fm tj sh gpN matchN reqN)))"
proof (intro conjI impI)
  assume "matchH (hono_path (hono_req c)) (toUpperCase (hono_method (hono_req c))) = Some mwH
      \<and> snd (acquirePayment fm mwH c (paymentRequirements mwH c)) = Inr (Some paymentH)
      \<and> nextH c = Inr c' \<and> status (hono_res c') \<ge> 400"
  then show "filter is_settle (fst (hono_paymentMiddleware fm tj sh gpH matchH c nextH)) = []"
    using hono_skips_settle [of matchH c mwH fm paymentH nextH c' tj sh gpH] by simp
next
  assume "matchE (express_path reqE) (toUpperCase (express_method reqE)) = Some mwE
      \<and> snd (acquirePayment fm mwE reqE (paymentRequirements mwE reqE)) = Inr (Some paymentE)
      \<and> nextE reqE resE = Ended args resE' \<and> statusCode resE' \<ge> 400"
  then show "filter is_settle (fst (express_paymentMiddleware fm tj sh gpE matchE reqE resE nextE)) = []"
    using express_skips_settle [of matchE reqE mwE fm paymentE nextE resE args resE' tj sh gpE]
    by simp
next
  assume N: "matchN (next_pathname reqN) (toUpperCase (next_method reqN)) = Some mwN
      \<and> snd (acquirePayment fm mwN reqN (paymentRequirements mwN reqN)) = Inr (Some paymentN)"
  then have ev: "fst (next_paymentMiddleware fm tj sh gpN matchN reqN) =
           fst (acquirePayment fm mwN reqN (paymentRequirements mwN reqN))
             @ [SettleCalled (payload paymentN) (selected paymentN)]"
    using next_always_settles [of matchN reqN mwN fm paymentN tj sh gpN] by simp
  show "filter is_settle (fst (next_paymentMiddleware fm tj sh gpN matchN reqN))
          = [SettleCalled (payload paymentN) (selected paymentN)]"
    unfolding ev by (simp add: acquirePayment_never_settles)
  show "DownstreamCalled \<notin> set (fst (next_paymentMiddleware fm tj sh gpN matchN reqN))"
    unfolding ev
    using acquirePayment_only_verifies
            [of DownstreamCalled fm mwN reqN "paymentRequirements mwN reqN"]
    by auto
qed

theorem settle_skipped_on_error_status_witness:
  "filter is_settle
     (fst (hono_paymentMiddleware stub_findMatchingPaymentRequirements stub_toJsonSafe
             stub_settleResponseHeader stub_getPaywallHtml (weather_match hono_weather)
             hono_paid hono_failing_next)) = []
   \<and> filter is_settle
     (fst (express_paymentMiddleware stub_findMatchingPaymentRequirements stub_toJsonSafe
             stub_settleResponseHeader stub_getPaywallHtml (weather_match express_weather)
             express_paid express_fresh_res express_failing_next)) = []
   \<and> filter is_settle
     (fst (next_paymentMiddleware stub_findMatchingPaymentRequirements stub_toJsonSafe
             stub_settleResponseHeader stub_getPaywallHtml (weather_match next_weather)
             next_paid)) = [SettleCalled validPayment weather_requirement]"
proof -
  let ?cH = "hono_paid\<lparr>hono_res := (hono_res hono_paid)\<lparr>status := 500\<rparr>\<rparr>"
  let ?rE = "express_fresh_res\<lparr>statusCode := 500\<rparr>"
  let ?args = "EndArgs [JString ''Internal Server Error'']"
  have hono: "weather_match hono_weather (hono_path (hono_req hono_paid))
                (toUpperCase (hono_method (hono_req hono_paid))) = Some hono_weather
      \<and> snd (acquirePayment stub_findMatchingPaymentRequirements hono_weather hono_paid
               (paymentRequirements hono_weather hono_paid)) = Inr (Some (test_payment stub_settle))
      \<and> hono_failing_next hono_paid = Inr ?cH \<and> status (hono_res ?cH) \<ge> 400"
    by (simp add: weather_routes hono_weather_def weather_paymentRequirements
          weather_acquire_paid hono_header_extraction hono_failing_next_def)
  have express: "weather_match express_weather (express_path express_paid)
                (toUpperCase (express_method express_paid)) = Some express_weather
      \<and> snd (acquirePayment stub_findMatchingPaymentRequirements express_weather express_paid
               (paymentRequirements express_weather express_paid))
          = Inr (Some (test_payment stub_settle))
      \<and> express_failing_next express_paid express_fresh_res = Ended ?args ?rE
      \<and> statusCode ?rE \<ge> 400"
    by (simp add: weather_routes express_weather_def weather_paymentRequirements
          weather_acquire_paid express_extraction express_failing_next_def)
  have "next": "weather_match next_weather (next_pathname next_paid)
                (toUpperCase (next_method next_paid)) = Some next_weather
      \<and> snd (acquirePayment stub_findMatchingPaymentRequirements next_weather next_paid
               (paymentRequirements next_weather next_paid))
          = Inr (Some (test_payment stub_settle))"
    by (simp add: weather_routes next_weather_def weather_paymentRequirements
          weather_acquire_paid next_extraction)
  from settle_skipped_on_error_status
         [where matchH = "weather_match hono_weather" and c = hono_paid and mwH = hono_weather
            and fm = stub_findMatchingPaymentRequirements
            and paymentH = "test_payment stub_settle" and nextH = hono_failing_next
            and c' = ?cH and tj = stub_toJsonSafe and sh = stub_settleResponseHeader
            and gpH = stub_getPaywallHtml
            and matchE = "weather_match express_weather" and reqE = express_paid
            and mwE = express_weather and paymentE = "test_payment stub_settle"
            and nextE = express_failing_next and resE = express_fresh_res and args = ?args
            and resE' = ?rE and gpE = stub_getPaywallHtml
            and matchN = "weather_match next_weather" and reqN = next_paid
            and mwN = next_weather and paymentN = "test_payment stub_settle"
            and gpN = stub_getPaywallHtml]
       hono express "next"
  show ?thesis by (simp add: test_payment_fields)
qed

text \<open>The handler of \<^verbatim>\<open>withPayment\<close> has the answer of the route handler in hand and
  settles without looking at its status.\<close>

lemma withPayment_settles_after_failing_handler:
  "fst (next_withPayment stub_findMatchingPaymentRequirements stub_toJsonSafe
          stub_settleResponseHeader stub_getPaywallHtml next_weather next_failing_handler
          next_paid) =
     [VerifyCalled validPayment weather_requirement, DownstreamCalled,
      SettleCalled validPayment weather_requirement]"
  by (simp add: next_withPayment_def next_weather_def weather_paymentRequirements
        weather_acquire_paid next_extraction next_failing_handler_def settle_test_payment)


subsection \<open>The body after a failed settlement\<close>

lemma verify_events_write_nothing:
  "(\<And>ev. ev \<in> set evs \<Longrightarrow> is_verify ev) \<Longrightarrow> foldl res_call w evs = w"
proof (induction evs arbitrary: w)
  case Nil
  show ?case by simp
next
  case (Cons ev evs)
  have "is_verify ev" using Cons.prems by simp
  then have "res_call w ev = w" by (cases ev) simp_all
  with Cons show ?case by simp
qed

lemma acquirePayment_writes_nothing:
  "foldl res_call w (fst (acquirePayment fm mw request reqs)) = w"
  using verify_events_write_nothing [of "fst (acquirePayment fm mw request reqs)" w]
        acquirePayment_only_verifies [of _ fm mw request reqs]
  by blast

text \<open>
  In the Express handler, a settlement that fails after the route handler has ended the
  response: the serialized error goes to \<^verbatim>\<open>res.json\<close> while the capturing function is
  installed, so it is not written, and the original \<^verbatim>\<open>res.end\<close> then writes what the
  route handler passed, under the status 402.
\<close>

lemma express_failed_settlement_replays_route_body:
  assumes "match (express_path req) (toUpperCase (express_method req)) = Some mw"
      and "snd (acquirePayment fm mw req (paymentRequirements mw req)) = Inr (Some payment)"
      and "next req res = Ended args res'"
      and "statusCode res' < 400"
      and "snd (settle_payment payment) = Inl (X402 x)"
      and "\<not> headersSent res'"
  shows "fst (express_paymentMiddleware fm tj sh gp match req res next) =
           fst (acquirePayment fm mw req (paymentRequirements mw req))
             @ [ResEndPatched, DownstreamCalled, SettleCalled (payload payment) (selected payment),
                ResStatus 402, ResJson (toJSON tj x), ResEndRestored, ResEnd args]"
    and "express_written (statusCode res')
           (fst (express_paymentMiddleware fm tj sh gp match req res next))
         = Some (402, EndBody args)"
proof -
  show run: "fst (express_paymentMiddleware fm tj sh gp match req res next) =
           fst (acquirePayment fm mw req (paymentRequirements mw req))
             @ [ResEndPatched, DownstreamCalled, SettleCalled (payload payment) (selected payment),
                ResStatus 402, ResJson (toJSON tj x), ResEndRestored, ResEnd args]"
    using assms
    by (simp add: express_paymentMiddleware_def Let_def express_catch_def settle_payment_events)
  show "express_written (statusCode res')
           (fst (express_paymentMiddleware fm tj sh gp match req res next))
         = Some (402, EndBody args)"
    unfolding run
    by (simp add: express_written_def acquirePayment_writes_nothing this_end_def originalEnd_def)
qed

lemma unsettled_acquire_paid:
  "acquirePayment stub_findMatchingPaymentRequirements express_unsettled express_paid
     [weather_requirement] =
     ([VerifyCalled validPayment weather_requirement],
      Inr (Some (test_payment failing_settle)))"
  "acquirePayment stub_findMatchingPaymentRequirements hono_unsettled hono_paid
     [weather_requirement] =
     ([VerifyCalled validPayment weather_requirement],
      Inr (Some (test_payment failing_settle)))"
  by (simp_all add: acquirePayment_def express_unsettled_def hono_unsettled_def
        express_weather_def hono_weather_def weather_middleware_def
        express_extraction hono_header_extraction weather_requirement_matches
        stub_verify_def test_payment_def)

lemma unsettled_paymentRequirements:
  "paymentRequirements express_unsettled request = [weather_requirement]"
  "paymentRequirements hono_unsettled c = [weather_requirement]"
  using weather_paymentRequirements
  by (simp_all add: express_unsettled_def hono_unsettled_def express_weather_def
        hono_weather_def paymentRequirements_def resolve_resource_def)

lemma settle_failing_test_payment:
  "settle_payment (test_payment failing_settle) =
     ([SettleCalled validPayment weather_requirement],
      Inl (X402 (new_X402Error (AString ''Settlement failed: insufficient_funds'')
                   [weather_requirement] (Some ''0xabc''))))"
  by (simp add: settle_payment_def test_payment_fields failing_settle_def)

lemma settlement_failed_body_serialized:
  "toJSON stub_toJsonSafe
     (new_X402Error (AString ''Settlement failed: insufficient_funds'')
        [weather_requirement] (Some ''0xabc''))
     = settlement_failed_body"
  by (simp add: toJSON_def new_X402Error_fields settlement_failed_body_def)

text \<open>
  C2 fails on the Express handler. The request is the paid request to the protected
  route; the verifier accepts, the route handler answers 200 with the body
  \<^verbatim>\<open>sunny\<close>, and the settler reports \<^verbatim>\<open>insufficient_funds\<close> for the payer \<^verbatim>\<open>0xabc\<close>.
  The error serializes to the object of the four members, with the payer in it, and
  the handler passes that object to \<^verbatim>\<open>res.json\<close> after \<^verbatim>\<open>res.status(402)\<close>; but what
  is written is the status 402 with the body of the route handler, not that object.
\<close>

theorem express_failed_settlement_writes_route_body:
  "toJSON stub_toJsonSafe
     (new_X402Error (AString ''Settlement failed: insufficient_funds'')
        [weather_requirement] (Some ''0xabc''))
     = [(''x402Version'', JNumber 1),
        (''error'', JString ''Settlement failed: insufficient_funds''),
        (''accepts'', stub_toJsonSafe [weather_requirement]),
        (''payer'', JString ''0xabc'')]
   \<and> express_paymentMiddleware stub_findMatchingPaymentRequirements stub_toJsonSafe
        stub_settleResponseHeader stub_getPaywallHtml (weather_match express_unsettled)
        express_paid express_fresh_res express_serving_next
     = ([VerifyCalled validPayment weather_requirement,
         ResEndPatched,
         DownstreamCalled,
         SettleCalled validPayment weather_requirement,
         ResStatus 402,
         ResJson [(''x402Version'', JNumber 1),
                  (''error'', JString ''Settlement failed: insufficient_funds''),
                  (''accepts'', stub_toJsonSafe [weather_requirement]),
                  (''payer'', JString ''0xabc'')],
         ResEndRestored,
         ResEnd (EndArgs [JString ''sunny''])],
        ExpressResolved)
   \<and> express_written 200
        (fst (express_paymentMiddleware stub_findMatchingPaymentRequirements stub_toJsonSafe
                stub_settleResponseHeader stub_getPaywallHtml (weather_match express_unsettled)
                express_paid express_fresh_res express_serving_next))
     = Some (402, EndBody (EndArgs [JString ''sunny'']))"
proof -
  have body: "toJSON stub_toJsonSafe
     (new_X402Error (AString ''Settlement failed: insufficient_funds'')
        [weather_requirement] (Some ''0xabc''))
     = [(''x402Version'', JNumber 1),
        (''error'', JString ''Settlement failed: insufficient_funds''),
        (''accepts'', stub_toJsonSafe [weather_requirement]),
        (''payer'', JString ''0xabc'')]"
    by (simp add: toJSON_def new_X402Error_fields)
  have run: "express_paymentMiddleware stub_findMatchingPaymentRequirements stub_toJsonSafe
        stub_settleResponseHeader stub_getPaywallHtml (weather_match express_unsettled)
        express_paid express_fresh_res express_serving_next
     = ([VerifyCalled validPayment weather_requirement,
         ResEndPatched,
         DownstreamCalled,
         SettleCalled validPayment weather_requirement,
         ResStatus 402,
         ResJson (toJSON stub_toJsonSafe
                    (new_X402Error (AString ''Settlement failed: insufficient_funds'')
                       [weather_requirement] (Some ''0xabc''))),
         ResEndRestored,
         ResEnd (EndArgs [JString ''sunny''])],
        ExpressResolved)"
    by (simp add: express_paymentMiddleware_def weather_routes unsettled_paymentRequirements
          unsettled_acquire_paid express_serving_next_def express_fresh_res_def
          settle_failing_test_payment express_catch_def)
  have written: "express_written 200
        (fst (express_paymentMiddleware stub_findMatchingPaymentRequirements stub_toJsonSafe
                stub_settleResponseHeader stub_getPaywallHtml (weather_match express_unsettled)
                express_paid express_fresh_res express_serving_next))
     = Some (402, EndBody (EndArgs [JString ''sunny'']))"
    unfolding run
    by (simp add: express_written_def this_end_def originalEnd_def)
  from body run written show ?thesis by simp
qed

text \<open>The Hono handler at the same request writes the serialized error.\<close>

lemma hono_failed_settlement_writes_the_error:
  "hono_paymentMiddleware stub_findMatchingPaymentRequirements stub_toJsonSafe
     stub_settleResponseHeader stub_getPaywallHtml (weather_match hono_unsettled)
     hono_paid hono_serving_next
   = ([VerifyCalled validPayment weather_requirement, DownstreamCalled,
       SettleCalled validPayment weather_requirement],
      HonoReturned (hono_paid\<lparr>hono_res :=
         \<lparr>status = 402, headers = [''Content-Type'' \<mapsto> ''application/json''],
          body = JSON_stringify settlement_failed_body\<rparr>\<rparr>))"
  by (simp add: hono_paymentMiddleware_def weather_routes unsettled_paymentRequirements
        unsettled_acquire_paid hono_serving_next_def settle_failing_test_payment
        hono_catch_def JSON_stringify_X402Error_def settlement_failed_body_serialized)

text \<open>A resource that is a function of the request is resolved for each request.\<close>

lemma paymentRequirements_of_function_resource:
  "map resource (paymentRequirements (this\<lparr>mw_resource := Inr f\<rparr>) request) = [f request]"
  by (simp add: paymentRequirements_def resolve_resource_def payment_template.extend_def
        PaymentRequirements.fields_def)

end
